theory Spec2Isabelle
  imports Complex_Main
begin

section \<open>JavaScript values and built-ins\<close>

text \<open>
  The services are TypeScript classes held in module-level singletons. Each class is
  modelled by a record of its private fields and each method by a function that takes the
  record (and returns the new one when the method mutates it). A \<^verbatim>\<open>throw\<close> is a
  value \<open>Inl e\<close> of a sum type, and every \<^verbatim>\<open>try/catch\<close> of the source is a case
  distinction on it.

  A number that can be \<^verbatim>\<open>NaN\<close> is a \<open>jsnum\<close>, a real or \<open>NaN\<close>; counts, amounts and the
  confidences of the learned candidates, which cannot, are reals. The rounding of IEEE
  doubles and the infinities are outside the model. Strings are lists of 8-bit
  characters, and the character classes of the regular expressions are the ASCII ones.
  Logging through \<^verbatim>\<open>mappingLogger\<close> and the \<^verbatim>\<open>performance.now()\<close> timings write
  only to the log and to the attempt counters; they are left out, except for the outcome
  message of the orchestrator.
\<close>

datatype error = NotInitialized | DimensionMismatch | MalformedTransaction | TypeError

text \<open>
  Type annotations are erased when TypeScript runs, so a method declared on
  \<^verbatim>\<open>number[]\<close> can be handed a string and conversely. The two kinds of argument that
  reach the similarity functions are kept apart by \<open>jsval\<close>.
\<close>

datatype jsval = JString string | JArray "real list"

fun js_length :: "jsval \<Rightarrow> nat" where
  "js_length (JString s) = length s"
| "js_length (JArray v) = length v"

text \<open>
  Numbers with \<^verbatim>\<open>NaN\<close>. A comparison with \<^verbatim>\<open>NaN\<close> is false; a sum, a product and
  \<^verbatim>\<open>Math.min\<close> with \<^verbatim>\<open>NaN\<close> are \<^verbatim>\<open>NaN\<close>.
\<close>

datatype jsnum = Num real | NaN

fun js_gt :: "jsnum \<Rightarrow> jsnum \<Rightarrow> bool" where
  "js_gt (Num x) (Num y) = (x > y)"
| "js_gt _ _ = False"

fun js_add :: "jsnum \<Rightarrow> jsnum \<Rightarrow> jsnum" where
  "js_add (Num x) (Num y) = Num (x + y)"
| "js_add _ _ = NaN"

fun js_mult :: "jsnum \<Rightarrow> jsnum \<Rightarrow> jsnum" where
  "js_mult (Num x) (Num y) = Num (x * y)"
| "js_mult _ _ = NaN"

fun js_min :: "jsnum \<Rightarrow> jsnum \<Rightarrow> jsnum" where
  "js_min (Num x) (Num y) = Num (min x y)"
| "js_min _ _ = NaN"

text \<open>The quotient of two counts: \<^verbatim>\<open>0 / 0\<close> is \<^verbatim>\<open>NaN\<close>.\<close>

definition js_ratio :: "nat \<Rightarrow> nat \<Rightarrow> jsnum" where
  "js_ratio n d = (if n = 0 \<and> d = 0 then NaN else Num (real n / real d))"

text \<open>
  What the code takes from outside the repository: the two npm packages
  (the quotient that \<^verbatim>\<open>compute-cosine-similarity\<close> forms for two arrays of equal length
  with non-zero norms, and \<^verbatim>\<open>string-similarity.compareTwoStrings\<close>), \<^verbatim>\<open>parseFloat\<close>, and the three readings
  of a \<^verbatim>\<open>Date\<close> built from a date string (\<^verbatim>\<open>getDay()\<close>, \<^verbatim>\<open>getDate()\<close> and the
  last day of its month, \<^verbatim>\<open>new Date(y, m + 1, 0).getDate()\<close>). They are parameters of
  the model.
\<close>

record runtime =
  cosine :: "real list \<Rightarrow> real list \<Rightarrow> real"
  compareTwoStrings :: "string \<Rightarrow> string \<Rightarrow> real"
  parseFloat :: "string \<Rightarrow> real"
  getDay :: "string \<Rightarrow> nat"
  getDate :: "string \<Rightarrow> nat"
  lastDateOfMonth :: "string \<Rightarrow> nat"

definition is_space :: "char \<Rightarrow> bool" where
  "is_space c = (c \<in> set [CHR '' '', CHR 0x09, CHR 0x0A, CHR 0x0B, CHR 0x0C, CHR 0x0D])"

definition is_digit :: "char \<Rightarrow> bool" where
  "is_digit c = (c \<in> set ''0123456789'')"

definition is_lower_alnum :: "char \<Rightarrow> bool" where
  "is_lower_alnum c = (c \<in> set ''abcdefghijklmnopqrstuvwxyz0123456789'')"

definition to_lower :: "char \<Rightarrow> char" where
  "to_lower c =
     (case map_of (zip ''ABCDEFGHIJKLMNOPQRSTUVWXYZ'' ''abcdefghijklmnopqrstuvwxyz'') c of
        None \<Rightarrow> c
      | Some l \<Rightarrow> l)"

definition toLowerCase :: "string \<Rightarrow> string" where
  "toLowerCase s = map to_lower s"

definition trim :: "string \<Rightarrow> string" where
  "trim s = rev (dropWhile is_space (rev (dropWhile is_space s)))"

text \<open>
  \<^verbatim>\<open>s.split(/[...]+/)\<close> for a character class \<open>p\<close>: the pieces between maximal runs of
  separator characters; a leading or trailing run leaves an empty piece, and the empty
  string gives one empty piece.
\<close>

fun split_runs :: "(char \<Rightarrow> bool) \<Rightarrow> bool \<Rightarrow> string \<Rightarrow> string \<Rightarrow> string list" where
  "split_runs p in_sep acc [] = [rev acc]"
| "split_runs p in_sep acc (c # cs) =
     (if p c then
        (if in_sep then split_runs p True acc cs else rev acc # split_runs p True [] cs)
      else split_runs p False (c # acc) cs)"

definition split_regex :: "(char \<Rightarrow> bool) \<Rightarrow> string \<Rightarrow> string list" where
  "split_regex p s = split_runs p False [] s"

fun join :: "string \<Rightarrow> string list \<Rightarrow> string" where
  "join sep [] = []"
| "join sep [x] = x"
| "join sep (x # y # ys) = x @ sep @ join sep (y # ys)"

definition starts_with :: "string \<Rightarrow> string \<Rightarrow> bool" where
  "starts_with s sub = (take (length sub) s = sub)"

definition ends_with :: "string \<Rightarrow> string \<Rightarrow> bool" where
  "ends_with s sub = starts_with (rev s) (rev sub)"

fun includes_str :: "string \<Rightarrow> string \<Rightarrow> bool" where
  "includes_str [] sub = (sub = [])"
| "includes_str (c # cs) sub = (starts_with (c # cs) sub \<or> includes_str cs sub)"

definition digit_char :: "nat \<Rightarrow> char" where
  "digit_char n = ''0123456789'' ! (n mod 10)"

fun show_nat :: "nat \<Rightarrow> string" where
  "show_nat n = (if n < 10 then [digit_char n] else show_nat (n div 10) @ [digit_char n])"

text \<open>
  A \<^verbatim>\<open>Map\<close> iterates in insertion order and \<^verbatim>\<open>set\<close> on a present key keeps its
  place: an association list. A \<^verbatim>\<open>Set\<close> is a list without repetition, in insertion
  order.
\<close>

fun map_set :: "'k \<Rightarrow> 'v \<Rightarrow> ('k \<times> 'v) list \<Rightarrow> ('k \<times> 'v) list" where
  "map_set k v [] = [(k, v)]"
| "map_set k v ((k', v') # m) = (if k' = k then (k, v) # m else (k', v') # map_set k v m)"

definition set_add :: "'a \<Rightarrow> 'a list \<Rightarrow> 'a list" where
  "set_add x xs = (if x \<in> set xs then xs else xs @ [x])"

fun index_of :: "'a \<Rightarrow> 'a list \<Rightarrow> nat option" where
  "index_of x [] = None"
| "index_of x (y # ys) =
     (if y = x then Some 0 else (case index_of x ys of None \<Rightarrow> None | Some i \<Rightarrow> Some (Suc i)))"

text \<open>
  \<^verbatim>\<open>xs.sort((a, b) => key(b) - key(a))\<close>: descending by key. The sort of an array is
  stable, as the insertion sort of the list library is.
\<close>

definition js_sort_desc :: "('a \<Rightarrow> real) \<Rightarrow> 'a list \<Rightarrow> 'a list" where
  "js_sort_desc key xs = sort_key (\<lambda>x. - key x) xs"

text \<open>
  The same sort when a key can be \<^verbatim>\<open>NaN\<close>. The comparator returns \<^verbatim>\<open>NaN\<close> for a pair
  with such a key, which the sort reads as 0: the pair is left in its order. An element
  moves behind another only if the other's key is greater. (When all keys are \<^verbatim>\<open>NaN\<close>
  every pair compares equal and the array keeps its order in every engine; when some are,
  the comparator is not consistent and the order is the engine's choice, of which
  insertion is one.)
\<close>

fun js_insert_desc :: "('a \<Rightarrow> jsnum) \<Rightarrow> 'a \<Rightarrow> 'a list \<Rightarrow> 'a list" where
  "js_insert_desc key x [] = [x]"
| "js_insert_desc key x (y # ys) =
     (if js_gt (key y) (key x) then y # js_insert_desc key x ys else x # y # ys)"

definition js_sort_desc_num :: "('a \<Rightarrow> jsnum) \<Rightarrow> 'a list \<Rightarrow> 'a list" where
  "js_sort_desc_num key xs = foldr (js_insert_desc key) xs []"

text \<open>\<^verbatim>\<open>xs.map(f)\<close> when \<open>f\<close> can throw: the first exception leaves the loop.\<close>

fun map_throwing :: "('a \<Rightarrow> error + 'b) \<Rightarrow> 'a list \<Rightarrow> error + 'b list" where
  "map_throwing f [] = Inr []"
| "map_throwing f (x # xs) =
     (case f x of
        Inl e \<Rightarrow> Inl e
      | Inr y \<Rightarrow> (case map_throwing f xs of Inl e \<Rightarrow> Inl e | Inr ys \<Rightarrow> Inr (y # ys)))"

text \<open>Whether \<^verbatim>\<open>x % n === 0\<close> for a number \<open>x\<close>.\<close>

definition is_multiple :: "real \<Rightarrow> real \<Rightarrow> bool" where
  "is_multiple x n = (real_of_int \<lfloor>x / n\<rfloor> * n = x)"

section \<open>Data model\<close>

text \<open>
  The declarations of \<^verbatim>\<open>types/accounting\<close> and \<^verbatim>\<open>types/ledger\<close>, read off the
  fields the services use. Field names carry a prefix so that \<open>id\<close>, \<open>type\<close> and
  \<open>description\<close> of the different objects stay apart. An account type is the string the
  code indexes \<^verbatim>\<open>signConventions\<close> and the amount ranges with.
\<close>

datatype entry_type = Debit | Credit

record Account =
  acc_id :: string
  acc_code :: string
  acc_name :: string
  acc_description :: "string option"
  acc_type :: string
  acc_subtype :: string
  acc_isActive :: bool

record AccountingStandard =
  std_name :: string
  signConventions :: "string \<rightharpoonup> entry_type"

record TransactionEntry =
  ent_accountNumber :: string
  ent_type :: entry_type
  ent_amount :: string

record Transaction =
  tx_description :: string
  tx_customerName :: "string option"
  tx_date :: string
  tx_entries :: "TransactionEntry list"

text \<open>
  The accounts of a result are objects: an \<^verbatim>\<open>Account\<close> of the chart, or the literal
  \<^verbatim>\<open>{ id: ... } as Account\<close>, which has the \<open>id\<close> property and no other.
\<close>

datatype account_obj = FullAccount Account | IdOnly string

record MappingResult =
  debitAccount :: "account_obj option"
  creditAccount :: "account_obj option"
  confidence :: jsnum

definition unmapped :: MappingResult where
  "unmapped = \<lparr>debitAccount = None, creditAccount = None, confidence = Num 0\<rparr>"

text \<open>\<^verbatim>\<open>s || ''\<close> and the truth value of an optional string.\<close>

definition or_empty :: "string option \<Rightarrow> string" where
  "or_empty s = (case s of None \<Rightarrow> [] | Some t \<Rightarrow> t)"

definition truthy :: "string option \<Rightarrow> bool" where
  "truthy s = (case s of None \<Rightarrow> False | Some t \<Rightarrow> t \<noteq> [])"

definition find_entry :: "entry_type \<Rightarrow> Transaction \<Rightarrow> TransactionEntry option" where
  "find_entry ty tx = List.find (\<lambda>e. ent_type e = ty) (tx_entries tx)"

section \<open>TextProcessor\<close>

definition stopWords :: "string list" where
  "stopWords = [''a'', ''an'', ''and'', ''are'', ''as'', ''at'', ''be'', ''by'', ''for'',
     ''from'', ''has'', ''he'', ''in'', ''is'', ''it'', ''its'', ''of'', ''on'',
     ''that'', ''the'', ''to'', ''was'', ''were'', ''will'', ''with'']"

definition processText :: "string \<Rightarrow> string list" where
  "processText text =
     (let words = filter (\<lambda>word. length word > 0)
            (split_regex is_space
               (filter (\<lambda>c. is_lower_alnum c \<or> is_space c) (toLowerCase text)))
      in filter (\<lambda>word. word \<notin> set stopWords) words)"

definition createVector :: "string \<Rightarrow> string list \<Rightarrow> real list" where
  "createVector text vocabulary =
     fold (\<lambda>word vector.
             (case index_of word vocabulary of
                None \<Rightarrow> vector
              | Some index \<Rightarrow> vector[index := vector ! index + 1]))
          (processText text) (replicate (length vocabulary) 0)"

definition buildVocabulary :: "string list \<Rightarrow> string list" where
  "buildVocabulary texts = fold (\<lambda>text vocabulary. fold set_add (processText text) vocabulary) texts []"

definition extractKeyPhrases :: "string \<Rightarrow> string list" where
  "extractKeyPhrases text =
     (let frequencies =
            fold (\<lambda>word m. map_set word (case map_of m word of None \<Rightarrow> 1 | Some n \<Rightarrow> n + (1::nat)) m)
                 (processText text) []
      in map fst (take 5 (js_sort_desc (\<lambda>e. real (snd e)) frequencies)))"

text \<open>
  \<^verbatim>\<open>TextProcessor.calculateSimilarity(text1, text2)\<close> calls \<^verbatim>\<open>toLowerCase()\<close> on both
  arguments; an array has no such method, and the call is a \<^verbatim>\<open>TypeError\<close>.
\<close>

definition TextProcessor_calculateSimilarity :: "runtime \<Rightarrow> jsval \<Rightarrow> jsval \<Rightarrow> error + real" where
  "TextProcessor_calculateSimilarity rt text1 text2 =
     (case (text1, text2) of
        (JString s1, JString s2) \<Rightarrow> Inr (compareTwoStrings rt (toLowerCase s1) (toLowerCase s2))
      | _ \<Rightarrow> Inl TypeError)"

section \<open>SimilarityCalculator\<close>

text \<open>
  The package \<^verbatim>\<open>compute-cosine-similarity\<close> validates its arguments and throws a
  \<^verbatim>\<open>TypeError\<close> unless both are arrays. For two empty arrays it returns \<^verbatim>\<open>null\<close>,
  which every later use (the product with the boost, the comparator, \<^verbatim>\<open>Math.min\<close>)
  reads as 0. Otherwise it returns the dot product divided by the product of the two
  norms: \<^verbatim>\<open>0 / 0\<close>, that is \<^verbatim>\<open>NaN\<close>, when one of the vectors has zero entries only,
  and the parameter \<open>cosine\<close> when both norms are positive.
\<close>

definition is_zero_vector :: "real list \<Rightarrow> bool" where
  "is_zero_vector v = list_all (\<lambda>x. x = 0) v"

definition computeCosineSimilarity :: "runtime \<Rightarrow> jsval \<Rightarrow> jsval \<Rightarrow> error + jsnum" where
  "computeCosineSimilarity rt x y =
     (case (x, y) of
        (JArray a, JArray b) \<Rightarrow>
          Inr (if a = [] then Num 0
               else if is_zero_vector a \<or> is_zero_vector b then NaN
               else Num (cosine rt a b))
      | _ \<Rightarrow> Inl TypeError)"

text \<open>
  \<^verbatim>\<open>SimilarityCalculator.calculateSimilarity(vector1, vector2)\<close>. The guard reads
  \<^verbatim>\<open>.length\<close>, which a string has too.
\<close>

definition SimilarityCalculator_calculateSimilarity :: "runtime \<Rightarrow> jsval \<Rightarrow> jsval \<Rightarrow> error + jsnum" where
  "SimilarityCalculator_calculateSimilarity rt vector1 vector2 =
     (if js_length vector1 \<noteq> js_length vector2 then Inl DimensionMismatch
      else computeCosineSimilarity rt vector1 vector2)"

section \<open>AccountMatcher\<close>

record AccountMatcher =
  am_accounts :: "Account list"
  am_standard :: "AccountingStandard option"
  am_accountPatterns :: "(string \<times> string list) list"

definition is_name_sep :: "char \<Rightarrow> bool" where
  "is_name_sep c = (is_space c \<or> c = CHR ''-'' \<or> c = CHR ''_'')"

definition extractAccountPatterns :: "Account \<Rightarrow> string list" where
  "extractAccountPatterns account =
     (let patterns1 = set_add (toLowerCase (acc_code account)) [];
          patterns2 = fold set_add (split_regex is_name_sep (toLowerCase (acc_name account))) patterns1;
          patterns3 = (if truthy (acc_description account)
                       then fold set_add
                              (split_regex is_name_sep (toLowerCase (or_empty (acc_description account))))
                              patterns2
                       else patterns2);
          patterns4 = set_add (acc_type account) patterns3
      in set_add (acc_subtype account) patterns4)"

definition AccountMatcher_initialize :: "Account list \<Rightarrow> AccountingStandard \<Rightarrow> AccountMatcher" where
  "AccountMatcher_initialize accounts standard =
     \<lparr>am_accounts = accounts,
      am_standard = Some standard,
      am_accountPatterns =
        fold (\<lambda>account m. map_set (acc_id account) (extractAccountPatterns account) m) accounts []\<rparr>"

definition findExactMatch :: "AccountMatcher \<Rightarrow> string \<Rightarrow> Account option" where
  "findExactMatch m accountNumber =
     List.find (\<lambda>account. acc_code account = accountNumber \<and> acc_isActive account) (am_accounts m)"

text \<open>The expression \<^verbatim>\<open>.replace(/\D/g, '').replace(/^0+/, '')\<close> of the fuzzy code match.\<close>

definition normalizeCode :: "string \<Rightarrow> string" where
  "normalizeCode s = dropWhile (\<lambda>c. c = CHR ''0'') (filter is_digit s)"

definition findFuzzyCodeMatch :: "AccountMatcher \<Rightarrow> string \<Rightarrow> Account option" where
  "findFuzzyCodeMatch m accountNumber =
     (let normalizedInput = normalizeCode accountNumber
      in List.find (\<lambda>account.
                      (let normalizedCode = normalizeCode (acc_code account)
                       in normalizedCode = normalizedInput \<and> acc_isActive account))
                   (am_accounts m))"

definition getAmountRangeScore :: "real \<Rightarrow> string \<Rightarrow> real" where
  "getAmountRangeScore amount accountType =
     (case map_of [(''asset'', (1000, 10000, 100000)),
                   (''liability'', (1000, 10000, 100000)),
                   (''expense'', (100, 1000, 10000)),
                   (''revenue'', (100, 1000, 10000))] accountType of
        None \<Rightarrow> 0.5
      | Some (small, medium, large) \<Rightarrow>
          (if amount \<le> small then 1
           else if amount \<le> medium then 0.8
           else if amount \<le> large then 0.6
           else 0.4))"

text \<open>
  The body of the \<^verbatim>\<open>map\<close> callback of \<^verbatim>\<open>findDescriptionMatch\<close>. The similarity call
  passes two strings to \<^verbatim>\<open>similarityCalculator.calculateSimilarity\<close>.
\<close>

definition scoreAccount ::
  "runtime \<Rightarrow> AccountMatcher \<Rightarrow> string list \<Rightarrow> string \<Rightarrow> entry_type \<Rightarrow> real \<Rightarrow> Account
     \<Rightarrow> error + (Account \<times> jsnum)" where
  "scoreAccount rt m processedDescription description entryType amount account =
     (let patterns = (case map_of (am_accountPatterns m) (acc_id account) of
                        None \<Rightarrow> []
                      | Some ps \<Rightarrow> ps);
          matchingPatterns = filter (\<lambda>pattern. pattern \<in> set processedDescription) patterns;
          score1 = js_mult (js_ratio (length matchingPatterns) (length patterns)) (Num 0.4)
      in case SimilarityCalculator_calculateSimilarity rt (JString description)
                (JString (acc_name account @ '' '' @ or_empty (acc_description account))) of
           Inl e \<Rightarrow> Inl e
         | Inr similarity \<Rightarrow>
             (let score2 = js_add score1 (js_mult similarity (Num 0.3));
                  score3 = (case am_standard m of
                              None \<Rightarrow> score2
                            | Some standard \<Rightarrow>
                                (if signConventions standard (acc_type account) = Some entryType
                                 then js_add score2 (Num 0.2) else score2));
                  score4 = js_add score3
                             (Num (getAmountRangeScore amount (acc_type account) * 0.1))
              in Inr (account, score4)))"

definition findDescriptionMatch ::
  "runtime \<Rightarrow> AccountMatcher \<Rightarrow> string \<Rightarrow> entry_type \<Rightarrow> real \<Rightarrow> error + Account option" where
  "findDescriptionMatch rt m description entryType amount =
     (let processedDescription = processText description
      in case map_throwing (scoreAccount rt m processedDescription description entryType amount)
                (filter acc_isActive (am_accounts m)) of
           Inl e \<Rightarrow> Inl e
         | Inr scores \<Rightarrow>
             Inr (case js_sort_desc_num snd scores of
                    [] \<Rightarrow> None
                  | (account, score) # _ \<Rightarrow>
                      (if js_gt score (Num 0.6) then Some account else None)))"

definition validateAccountMatch :: "AccountMatcher \<Rightarrow> Account \<Rightarrow> TransactionEntry \<Rightarrow> bool" where
  "validateAccountMatch m account entry =
     (case am_standard m of
        None \<Rightarrow> True
      | Some standard \<Rightarrow>
          (case signConventions standard (acc_type account) of
             None \<Rightarrow> False
           | Some normalBalance \<Rightarrow> ent_type entry = normalBalance))"

text \<open>
  \<^verbatim>\<open>findMatchingAccount\<close>: the three stages in order; the first stage that finds a
  candidate decides, and the candidate is returned only when it passes
  \<^verbatim>\<open>validateAccountMatch\<close>. The \<^verbatim>\<open>catch\<close> turns an exception into \<^verbatim>\<open>undefined\<close>.
\<close>

definition findMatchingAccount ::
  "runtime \<Rightarrow> AccountMatcher \<Rightarrow> TransactionEntry \<Rightarrow> Transaction \<Rightarrow> Account option" where
  "findMatchingAccount rt m entry transaction =
     (case findExactMatch m (ent_accountNumber entry) of
        Some exactMatch \<Rightarrow>
          (if validateAccountMatch m exactMatch entry then Some exactMatch else None)
      | None \<Rightarrow>
          (case findFuzzyCodeMatch m (ent_accountNumber entry) of
             Some fuzzyMatch \<Rightarrow>
               (if validateAccountMatch m fuzzyMatch entry then Some fuzzyMatch else None)
           | None \<Rightarrow>
               (case findDescriptionMatch rt m (tx_description transaction) (ent_type entry)
                       (parseFloat rt (ent_amount entry)) of
                  Inl e \<Rightarrow> None
                | Inr None \<Rightarrow> None
                | Inr (Some descriptionMatch) \<Rightarrow>
                    (if validateAccountMatch m descriptionMatch entry
                     then Some descriptionMatch else None))))"

section \<open>TransactionFeatureExtractor\<close>

datatype fvalue = FStr string | FNum nat

record TransactionFeature =
  f_type :: string
  f_value :: fvalue
  f_weight :: real

definition extractDescriptionFeatures :: "string \<Rightarrow> TransactionFeature list" where
  "extractDescriptionFeatures description =
     (let words = processText description
      in map (\<lambda>word. \<lparr>f_type = ''description_word'', f_value = FStr word, f_weight = 1\<rparr>) words @
         map (\<lambda>i. \<lparr>f_type = ''description_word_pair'',
                    f_value = FStr (words ! i @ ''_'' @ words ! (i + 1)),
                    f_weight = 1.2\<rparr>)
             [0 ..< length words - 1])"

definition getAmountRange :: "real \<Rightarrow> string" where
  "getAmountRange amount =
     (if amount \<le> 100 then ''very_small''
      else if amount \<le> 1000 then ''small''
      else if amount \<le> 10000 then ''medium''
      else if amount \<le> 100000 then ''large''
      else ''very_large'')"

definition isCommonAmount :: "real \<Rightarrow> bool" where
  "isCommonAmount amount = (amount \<in> set [10, 20, 50, 100, 500, 1000] \<or> is_multiple amount 100)"

definition extractAmountFeatures :: "runtime \<Rightarrow> Transaction \<Rightarrow> TransactionFeature list" where
  "extractAmountFeatures rt transaction =
     (let amount = (case find_entry Debit transaction of
                      None \<Rightarrow> 0
                    | Some debitEntry \<Rightarrow> parseFloat rt (ent_amount debitEntry))
      in [\<lparr>f_type = ''amount_range'', f_value = FStr (getAmountRange amount), f_weight = 1\<rparr>] @
         (if is_multiple amount 1
          then [\<lparr>f_type = ''amount_type'', f_value = FStr ''whole_number'', f_weight = 1.2\<rparr>]
          else []) @
         (if isCommonAmount amount
          then [\<lparr>f_type = ''amount_type'', f_value = FStr ''common_amount'', f_weight = 1.5\<rparr>]
          else []))"

text \<open>
  The five regular expressions of \<^verbatim>\<open>detectVendorTypes\<close>, all with the \<^verbatim>\<open>i\<close> flag: the
  first two are anchored at the end of the string, the other three match anywhere.
\<close>

definition detectVendorTypes :: "string \<Rightarrow> string list" where
  "detectVendorTypes vendor =
     (let v = toLowerCase vendor
      in (if list_ex (ends_with v) [''inc'', ''corp'', ''ltd'', ''llc''] then [''company''] else []) @
         (if list_ex (ends_with v) [''store'', ''shop'', ''mart'', ''market''] then [''retail''] else []) @
         (if list_ex (includes_str v) [''bank'', ''credit union'', ''financial'']
          then [''financial''] else []) @
         (if list_ex (includes_str v) [''restaurant'', ''cafe'', ''diner'']
          then [''food_service''] else []) @
         (if list_ex (includes_str v) [''service'', ''consulting'', ''professional'']
          then [''service''] else []))"

definition extractVendorFeatures :: "string \<Rightarrow> TransactionFeature list" where
  "extractVendorFeatures vendor =
     (let normalizedVendor = trim (toLowerCase vendor)
      in \<lparr>f_type = ''vendor'', f_value = FStr normalizedVendor, f_weight = 1\<rparr> #
         map (\<lambda>ty. \<lparr>f_type = ''vendor_type'', f_value = FStr ty, f_weight = 1.2\<rparr>)
             (detectVendorTypes normalizedVendor))"

definition isMonthBoundary :: "runtime \<Rightarrow> string \<Rightarrow> bool" where
  "isMonthBoundary rt date = (getDate rt date = 1 \<or> getDate rt date = lastDateOfMonth rt date)"

definition isWeekend :: "runtime \<Rightarrow> string \<Rightarrow> bool" where
  "isWeekend rt date = (getDay rt date = 0 \<or> getDay rt date = 6)"

definition extractDateFeatures :: "runtime \<Rightarrow> string \<Rightarrow> TransactionFeature list" where
  "extractDateFeatures rt date =
     [\<lparr>f_type = ''day_of_week'', f_value = FNum (getDay rt date), f_weight = 1\<rparr>,
      \<lparr>f_type = ''day_of_month'', f_value = FNum (getDate rt date), f_weight = 1\<rparr>] @
     (if isMonthBoundary rt date
      then [\<lparr>f_type = ''date_type'', f_value = FStr ''month_boundary'', f_weight = 1.5\<rparr>]
      else []) @
     (if isWeekend rt date
      then [\<lparr>f_type = ''date_type'', f_value = FStr ''weekend'', f_weight = 1.2\<rparr>]
      else [])"

definition entry_type_name :: "entry_type \<Rightarrow> string" where
  "entry_type_name ty = (case ty of Debit \<Rightarrow> ''debit'' | Credit \<Rightarrow> ''credit'')"

text \<open>
  \<^verbatim>\<open>extractFeatures\<close>: each group is appended through
  \<^verbatim>\<open>map(f => ({ ...f, weight: w }))\<close>, which copies the feature and sets its
  \<^verbatim>\<open>weight\<close> property to the group's number. Nothing in the body throws.
\<close>

definition extractFeatures :: "runtime \<Rightarrow> Transaction \<Rightarrow> TransactionFeature list" where
  "extractFeatures rt transaction =
     map (\<lambda>f. f\<lparr>f_weight := 0.35\<rparr>) (extractDescriptionFeatures (tx_description transaction)) @
     map (\<lambda>f. f\<lparr>f_weight := 0.25\<rparr>) (extractAmountFeatures rt transaction) @
     (if truthy (tx_customerName transaction)
      then map (\<lambda>f. f\<lparr>f_weight := 0.20\<rparr>)
             (extractVendorFeatures (or_empty (tx_customerName transaction)))
      else []) @
     map (\<lambda>f. f\<lparr>f_weight := 0.15\<rparr>) (extractDateFeatures rt (tx_date transaction)) @
     [\<lparr>f_type = ''transaction_type'',
       f_value = FStr (case tx_entries transaction of
                         [] \<Rightarrow> ''unknown''
                       | e # _ \<Rightarrow> entry_type_name (ent_type e)),
       f_weight = 0.05\<rparr>]"

section \<open>AccountPatternBuilder\<close>

record AccountPattern =
  p_code :: string
  p_type :: string
  p_keywords :: "string list"
  p_description :: string
  p_vector :: "real list"

record AccountPatternBuilder =
  apb_patterns :: "(string \<times> AccountPattern) list"
  apb_vocabulary :: "string list"

text \<open>The template \<^verbatim>\<open>`${name} ${description || ''} ${type} ${subtype}`\<close>.\<close>

definition accountText :: "Account \<Rightarrow> string" where
  "accountText account =
     acc_name account @ '' '' @ or_empty (acc_description account) @ '' '' @
     acc_type account @ '' '' @ acc_subtype account"

definition createPattern :: "string list \<Rightarrow> Account \<Rightarrow> AccountPattern" where
  "createPattern vocabulary account =
     (let text = accountText account
      in \<lparr>p_code = acc_code account,
          p_type = acc_type account,
          p_keywords = extractKeyPhrases text,
          p_description = text,
          p_vector = createVector text vocabulary\<rparr>)"

text \<open>\<^verbatim>\<open>buildPatterns\<close> replaces the vocabulary and sets one pattern per account; the
  map of patterns is not cleared first.\<close>

definition buildPatterns :: "Account list \<Rightarrow> AccountPatternBuilder \<Rightarrow> AccountPatternBuilder" where
  "buildPatterns accounts b =
     (let vocabulary = buildVocabulary (map accountText accounts)
      in \<lparr>apb_patterns =
            fold (\<lambda>account m. map_set (acc_id account) (createPattern vocabulary account) m)
                 accounts (apb_patterns b),
          apb_vocabulary = vocabulary\<rparr>)"

text \<open>
  \<^verbatim>\<open>findSimilarAccounts(text, type?, limit = 5)\<close>. The similarity of the two vectors is
  asked of \<^verbatim>\<open>textProcessor.calculateSimilarity\<close>. There is no \<^verbatim>\<open>try\<close> in this method.
\<close>

definition findSimilarAccounts ::
  "runtime \<Rightarrow> AccountPatternBuilder \<Rightarrow> string \<Rightarrow> string option \<Rightarrow> nat option
     \<Rightarrow> error + (string \<times> real) list" where
  "findSimilarAccounts rt b text ty limit =
     (let inputVector = createVector text (apb_vocabulary b)
      in case map_throwing
                (\<lambda>(accountId, pattern).
                   (case TextProcessor_calculateSimilarity rt (JArray inputVector)
                           (JArray (p_vector pattern)) of
                      Inl e \<Rightarrow> Inl e
                    | Inr similarity \<Rightarrow> Inr (accountId, similarity)))
                (filter (\<lambda>(_, pattern). \<not> truthy ty \<or> Some (p_type pattern) = ty)
                        (apb_patterns b)) of
           Inl e \<Rightarrow> Inl e
         | Inr similarities \<Rightarrow>
             Inr (take (case limit of None \<Rightarrow> 5 | Some n \<Rightarrow> n)
                       (js_sort_desc snd similarities)))"

section \<open>TransactionPatternMatcher\<close>

record LearnedPair =
  lp_debit :: string
  lp_credit :: string

record PatternMatch =
  accountId :: string
  pm_confidence :: real
  reason :: string

record Matches =
  debitMatches :: "PatternMatch list"
  creditMatches :: "PatternMatch list"

record TransactionPatternMatcher =
  historicalPatterns :: "(string \<times> LearnedPair) list"
  vendorPatterns :: "(string \<times> LearnedPair) list"
  accountUsageFrequency :: "(string \<times> nat) list"

definition TransactionPatternMatcher_initialize :: TransactionPatternMatcher where
  "TransactionPatternMatcher_initialize =
     \<lparr>historicalPatterns = [], vendorPatterns = [], accountUsageFrequency = []\<rparr>"

definition normalizeText :: "string \<Rightarrow> string" where
  "normalizeText text = trim (toLowerCase text)"

definition incrementAccountUsage :: "string \<Rightarrow> (string \<times> nat) list \<Rightarrow> (string \<times> nat) list" where
  "incrementAccountUsage account_id m =
     map_set account_id ((case map_of m account_id of None \<Rightarrow> 0 | Some n \<Rightarrow> n) + 1) m"

definition learnFromTransaction ::
  "Transaction \<Rightarrow> string \<Rightarrow> string \<Rightarrow> TransactionPatternMatcher \<Rightarrow> TransactionPatternMatcher" where
  "learnFromTransaction transaction debitAccountId creditAccountId s =
     (let pair = \<lparr>lp_debit = debitAccountId, lp_credit = creditAccountId\<rparr>
      in \<lparr>historicalPatterns =
            map_set (normalizeText (tx_description transaction)) pair (historicalPatterns s),
          vendorPatterns =
            (if truthy (tx_customerName transaction)
             then map_set (normalizeText (or_empty (tx_customerName transaction))) pair
                    (vendorPatterns s)
             else vendorPatterns s),
          accountUsageFrequency =
            incrementAccountUsage creditAccountId
              (incrementAccountUsage debitAccountId (accountUsageFrequency s))\<rparr>)"

definition findHistoricalMatch :: "TransactionPatternMatcher \<Rightarrow> Transaction \<Rightarrow> LearnedPair option" where
  "findHistoricalMatch s transaction =
     map_of (historicalPatterns s) (normalizeText (tx_description transaction))"

definition findVendorMatch :: "TransactionPatternMatcher \<Rightarrow> Transaction \<Rightarrow> LearnedPair option" where
  "findVendorMatch s transaction =
     (if \<not> truthy (tx_customerName transaction) then None
      else map_of (vendorPatterns s) (normalizeText (or_empty (tx_customerName transaction))))"

definition push_pair :: "LearnedPair \<Rightarrow> real \<Rightarrow> string \<Rightarrow> Matches \<Rightarrow> Matches" where
  "push_pair pattern c why results =
     \<lparr>debitMatches = debitMatches results @
        [\<lparr>accountId = lp_debit pattern, pm_confidence = c, reason = why\<rparr>],
      creditMatches = creditMatches results @
        [\<lparr>accountId = lp_credit pattern, pm_confidence = c, reason = why\<rparr>]\<rparr>"

text \<open>
  The loop of \<^verbatim>\<open>findSimilarDescriptionMatches\<close> over the entries of
  \<^verbatim>\<open>historicalPatterns\<close>. Each round passes the transaction's description and the
  stored description, two strings, to \<^verbatim>\<open>similarityCalculator.calculateSimilarity\<close>; an
  exception leaves the loop and the method.
\<close>

fun similar_loop ::
  "runtime \<Rightarrow> string \<Rightarrow> (string \<times> LearnedPair) list \<Rightarrow> Matches \<Rightarrow> error + Matches" where
  "similar_loop rt description [] results = Inr results"
| "similar_loop rt description ((desc, pattern) # rest) results =
     (case SimilarityCalculator_calculateSimilarity rt (JString description) (JString desc) of
        Inl e \<Rightarrow> Inl e
      | Inr similarity \<Rightarrow>
          similar_loop rt description rest
            (case similarity of
               Num x \<Rightarrow>
                 (if x > 0.7
                  then push_pair pattern (x * 0.85) ''Similar description match'' results
                  else results)
             | NaN \<Rightarrow> results))"

definition findSimilarDescriptionMatches ::
  "runtime \<Rightarrow> TransactionPatternMatcher \<Rightarrow> Transaction \<Rightarrow> error + Matches" where
  "findSimilarDescriptionMatches rt s transaction =
     similar_loop rt (tx_description transaction) (historicalPatterns s)
       \<lparr>debitMatches = [], creditMatches = []\<rparr>"

text \<open>
  The divisor is twice the size of \<^verbatim>\<open>historicalPatterns\<close>. It is zero only when no
  description was learned; \<^verbatim>\<open>learnFromTransaction\<close> fills both tables, so the usage table
  is empty then and no quotient is formed.
\<close>

definition getFrequencyBasedMatches :: "TransactionPatternMatcher \<Rightarrow> PatternMatch list" where
  "getFrequencyBasedMatches s =
     map (\<lambda>(account_id, frequency).
            \<lparr>accountId = account_id,
             pm_confidence = 0.5 + real frequency / (real (length (historicalPatterns s)) * 2),
             reason = ''Frequently used account''\<rparr>)
         (take 5 (js_sort_desc (\<lambda>e. real (snd e)) (accountUsageFrequency s)))"

text \<open>
  \<^verbatim>\<open>findMatches\<close> pushes onto \<^verbatim>\<open>results\<close> step by step inside a \<^verbatim>\<open>try\<close>; its
  \<^verbatim>\<open>catch\<close> returns \<^verbatim>\<open>results\<close> as they stand at the exception.
\<close>

definition findMatches :: "runtime \<Rightarrow> TransactionPatternMatcher \<Rightarrow> Transaction \<Rightarrow> Matches" where
  "findMatches rt s transaction =
     (let results0 = \<lparr>debitMatches = [], creditMatches = []\<rparr>;
          results1 = (case findHistoricalMatch s transaction of
                        None \<Rightarrow> results0
                      | Some historicalMatch \<Rightarrow>
                          push_pair historicalMatch 0.95 ''Historical pattern match'' results0);
          results2 = (case findVendorMatch s transaction of
                        None \<Rightarrow> results1
                      | Some vendorMatch \<Rightarrow>
                          push_pair vendorMatch 0.9 ''Vendor pattern match'' results1)
      in case findSimilarDescriptionMatches rt s transaction of
           Inl e \<Rightarrow> results2
         | Inr similarMatches \<Rightarrow>
             (let frequencyMatches = getFrequencyBasedMatches s
              in \<lparr>debitMatches =
                    debitMatches results2 @ debitMatches similarMatches @ frequencyMatches,
                  creditMatches =
                    creditMatches results2 @ creditMatches similarMatches @ frequencyMatches\<rparr>))"

section \<open>RAGMapper\<close>

record RAGMapper =
  rag_accounts :: "Account list"
  rag_standard :: "AccountingStandard option"
  rag_accountEmbeddings :: "(string \<times> real list) list"
  rag_vocabulary :: "string list"

definition RAGMapper_initialize :: "Account list \<Rightarrow> AccountingStandard \<Rightarrow> RAGMapper" where
  "RAGMapper_initialize accounts standard =
     (let vocabulary = buildVocabulary (map accountText accounts)
      in \<lparr>rag_accounts = accounts,
          rag_standard = Some standard,
          rag_accountEmbeddings =
            fold (\<lambda>account m. map_set (acc_id account) (createVector (accountText account) vocabulary) m)
                 accounts [],
          rag_vocabulary = vocabulary\<rparr>)"

definition show_fvalue :: "fvalue \<Rightarrow> string" where
  "show_fvalue v = (case v of FStr s \<Rightarrow> s | FNum n \<Rightarrow> show_nat n)"

definition createTransactionEmbedding ::
  "RAGMapper \<Rightarrow> Transaction \<Rightarrow> TransactionFeature list \<Rightarrow> real list" where
  "createTransactionEmbedding m transaction features =
     createVector
       (join '' '' ([tx_description transaction, or_empty (tx_customerName transaction)] @
                    map (\<lambda>f. f_type f @ '':'' @ show_fvalue (f_value f)) features))
       (rag_vocabulary m)"

definition getSignConventionBoost :: "entry_type \<Rightarrow> real \<Rightarrow> real" where
  "getSignConventionBoost normalBalance amount =
     (if (amount > 0 \<and> normalBalance = Debit) \<or> (amount < 0 \<and> normalBalance = Credit)
      then 1.2 else 0.8)"

definition isValidDebitAccount :: "RAGMapper \<Rightarrow> Account option \<Rightarrow> bool" where
  "isValidDebitAccount m account =
     (case (rag_standard m, account) of
        (Some standard, Some a) \<Rightarrow> signConventions standard (acc_type a) = Some Debit
      | _ \<Rightarrow> False)"

definition isValidCreditAccount :: "RAGMapper \<Rightarrow> Account option \<Rightarrow> bool" where
  "isValidCreditAccount m account =
     (case (rag_standard m, account) of
        (Some standard, Some a) \<Rightarrow> signConventions standard (acc_type a) = Some Credit
      | _ \<Rightarrow> False)"

text \<open>
  The \<^verbatim>\<open>map\<close> callback of \<^verbatim>\<open>findBestMatches\<close> over the entries of
  \<^verbatim>\<open>accountEmbeddings\<close>: the cosine of the two vectors, then the account of that id and
  the boost of its sign convention.
\<close>

definition scoreEmbedding ::
  "runtime \<Rightarrow> RAGMapper \<Rightarrow> real list \<Rightarrow> TransactionEntry \<Rightarrow> string \<times> real list
     \<Rightarrow> error + (Account option \<times> jsnum)" where
  "scoreEmbedding rt m transactionEmbedding debitEntry entry =
     (case SimilarityCalculator_calculateSimilarity rt (JArray transactionEmbedding)
             (JArray (snd entry)) of
        Inl e \<Rightarrow> Inl e
      | Inr similarity \<Rightarrow>
          (let account = List.find (\<lambda>a. acc_id a = fst entry) (rag_accounts m)
           in case (account, rag_standard m) of
                (Some a, Some standard) \<Rightarrow>
                  (case signConventions standard (acc_type a) of
                     Some normalBalance \<Rightarrow>
                       Inr (account,
                            js_mult similarity
                              (Num (getSignConventionBoost normalBalance
                                      (parseFloat rt (ent_amount debitEntry)))))
                   | None \<Rightarrow> Inr (account, similarity))
              | _ \<Rightarrow> Inr (account, Num 0)))"

text \<open>
  \<^verbatim>\<open>findBestMatches\<close>. The credit pick skips the score whose account is the debit
  pick's (\<^verbatim>\<open>s.account !== bestDebit?.account\<close>). The scores carry one account per key of
  the map, found by that key, so two of them hold the same object only when they hold
  equal accounts.
\<close>

definition findBestMatches ::
  "runtime \<Rightarrow> RAGMapper \<Rightarrow> real list \<Rightarrow> Transaction \<Rightarrow> error + MappingResult" where
  "findBestMatches rt m transactionEmbedding transaction =
     (case (find_entry Debit transaction, find_entry Credit transaction) of
        (Some debitEntry, Some creditEntry) \<Rightarrow>
          (case map_throwing (scoreEmbedding rt m transactionEmbedding debitEntry)
                  (rag_accountEmbeddings m) of
             Inl e \<Rightarrow> Inl e
           | Inr unsorted \<Rightarrow>
               (let scores = js_sort_desc_num snd unsorted;
                    bestDebit = List.find (\<lambda>s. isValidDebitAccount m (fst s)) scores;
                    bestCredit =
                      List.find (\<lambda>s. fst s \<noteq> (case bestDebit of None \<Rightarrow> None | Some b \<Rightarrow> fst b) \<and>
                                      isValidCreditAccount m (fst s)) scores
                in case (bestDebit, bestCredit) of
                     (Some d, Some c) \<Rightarrow>
                       Inr \<lparr>debitAccount = map_option FullAccount (fst d),
                            creditAccount = map_option FullAccount (fst c),
                            confidence = js_min (snd d) (snd c)\<rparr>
                   | _ \<Rightarrow> Inr unmapped))
      | _ \<Rightarrow> Inr unmapped)"

text \<open>\<^verbatim>\<open>RAGMapper.mapTransaction\<close>: the \<^verbatim>\<open>catch\<close> returns \<^verbatim>\<open>{ confidence: 0 }\<close>.\<close>

definition RAGMapper_mapTransaction :: "runtime \<Rightarrow> RAGMapper \<Rightarrow> Transaction \<Rightarrow> MappingResult" where
  "RAGMapper_mapTransaction rt m transaction =
     (let features = extractFeatures rt transaction;
          transactionEmbedding = createTransactionEmbedding m transaction features
      in case findBestMatches rt m transactionEmbedding transaction of
           Inl e \<Rightarrow> unmapped
         | Inr matches \<Rightarrow> matches)"

section \<open>MappingOrchestrator\<close>

text \<open>
  The orchestrator's flag together with the four singletons it initializes and reads.
\<close>

record Services =
  initialized :: bool
  ragMapper :: RAGMapper
  accountMatcher :: AccountMatcher
  transactionPatternMatcher :: TransactionPatternMatcher
  accountPatternBuilder :: AccountPatternBuilder

definition MappingOrchestrator_initialize ::
  "Account list \<Rightarrow> AccountingStandard \<Rightarrow> Services \<Rightarrow> Services" where
  "MappingOrchestrator_initialize accounts standard s =
     \<lparr>initialized = True,
      ragMapper = RAGMapper_initialize accounts standard,
      accountMatcher = AccountMatcher_initialize accounts standard,
      transactionPatternMatcher = TransactionPatternMatcher_initialize,
      accountPatternBuilder = buildPatterns accounts (accountPatternBuilder s)\<rparr>"

text \<open>
  \<^verbatim>\<open>tryPatternMatching\<close> calls \<^verbatim>\<open>findMatches(transaction)\<close> and takes element 0 of
  each list.
\<close>

definition tryPatternMatching :: "runtime \<Rightarrow> Services \<Rightarrow> Transaction \<Rightarrow> MappingResult" where
  "tryPatternMatching rt s transaction =
     (let matches = findMatches rt (transactionPatternMatcher s) transaction
      in case (debitMatches matches, creditMatches matches) of
           (bestDebit # _, bestCredit # _) \<Rightarrow>
             \<lparr>debitAccount = Some (IdOnly (accountId bestDebit)),
              creditAccount = Some (IdOnly (accountId bestCredit)),
              confidence = Num (min (pm_confidence bestDebit) (pm_confidence bestCredit))\<rparr>
         | _ \<Rightarrow> unmapped)"

text \<open>The \<^verbatim>\<open>try\<close> block of \<^verbatim>\<open>tryAccountMatching\<close>, and the method with its \<^verbatim>\<open>catch\<close>.\<close>

definition tryAccountMatching_body :: "runtime \<Rightarrow> Services \<Rightarrow> Transaction \<Rightarrow> error + MappingResult" where
  "tryAccountMatching_body rt s transaction =
     (case (find_entry Debit transaction, find_entry Credit transaction) of
        (Some debitEntry, Some creditEntry) \<Rightarrow>
          (case (findMatchingAccount rt (accountMatcher s) debitEntry transaction,
                 findMatchingAccount rt (accountMatcher s) creditEntry transaction) of
             (Some debit, Some credit) \<Rightarrow>
               Inr \<lparr>debitAccount = Some (FullAccount debit),
                    creditAccount = Some (FullAccount credit),
                    confidence = Num 0.6\<rparr>
           | _ \<Rightarrow> Inr unmapped)
      | _ \<Rightarrow> Inl MalformedTransaction)"

definition tryAccountMatching :: "runtime \<Rightarrow> Services \<Rightarrow> Transaction \<Rightarrow> MappingResult" where
  "tryAccountMatching rt s transaction =
     (case tryAccountMatching_body rt s transaction of
        Inl e \<Rightarrow> unmapped
      | Inr r \<Rightarrow> r)"

text \<open>
  \<^verbatim>\<open>MappingOrchestrator.mapTransaction\<close>. The result is paired with the message the
  method logs on the branch it returns from. The three stage methods catch whatever
  their bodies throw, so the method's own \<^verbatim>\<open>catch\<close> has nothing left to catch; the
  check of the flag stands before the \<^verbatim>\<open>try\<close>.
\<close>

definition mapTransaction ::
  "runtime \<Rightarrow> Services \<Rightarrow> Transaction \<Rightarrow> error + (MappingResult \<times> string)" where
  "mapTransaction rt s transaction =
     (if \<not> initialized s then Inl NotInitialized
      else
        (let ragResult = RAGMapper_mapTransaction rt (ragMapper s) transaction
         in if js_gt (confidence ragResult) (Num 0.8)
            then Inr (ragResult, ''RAG mapping successful'')
            else
              (let patternResult = tryPatternMatching rt s transaction
               in if js_gt (confidence patternResult) (Num 0.7)
                  then Inr (patternResult, ''Pattern matching successful'')
                  else
                    (let matchResult = tryAccountMatching rt s transaction
                     in if js_gt (confidence matchResult) (Num 0)
                        then Inr (matchResult, ''Account matching successful'')
                        else Inr (unmapped, ''No successful mapping found'')))))"

text \<open>
  The states the services can be in once \<^verbatim>\<open>mappingOrchestrator.initialize\<close> has run:
  confirmed mappings may have been learned since, and \<^verbatim>\<open>ragMapper.initialize\<close> may
  have been called again on its own, as the two mapping components of the user interface
  do.
\<close>

inductive reachable :: "Services \<Rightarrow> bool" where
  reach_init: "reachable (MappingOrchestrator_initialize accounts standard s0)"
| reach_learn:
    "reachable s \<Longrightarrow>
     reachable (s\<lparr>transactionPatternMatcher :=
                    learnFromTransaction transaction debitAccountId creditAccountId
                      (transactionPatternMatcher s)\<rparr>)"
| reach_rag:
    "reachable s \<Longrightarrow> reachable (s\<lparr>ragMapper := RAGMapper_initialize accounts standard\<rparr>)"

section \<open>Reading aids for the statements\<close>

text \<open>
  The candidate that \<^verbatim>\<open>findMatchingAccount\<close> goes on to validate: the account of the
  first of the three stages that finds one.
\<close>

definition firstCandidate ::
  "runtime \<Rightarrow> AccountMatcher \<Rightarrow> TransactionEntry \<Rightarrow> Transaction \<Rightarrow> Account option" where
  "firstCandidate rt m entry transaction =
     (case findExactMatch m (ent_accountNumber entry) of
        Some exactMatch \<Rightarrow> Some exactMatch
      | None \<Rightarrow>
          (case findFuzzyCodeMatch m (ent_accountNumber entry) of
             Some fuzzyMatch \<Rightarrow> Some fuzzyMatch
           | None \<Rightarrow>
               (case findDescriptionMatch rt m (tx_description transaction) (ent_type entry)
                       (parseFloat rt (ent_amount entry)) of
                  Inr (Some descriptionMatch) \<Rightarrow> Some descriptionMatch
                | _ \<Rightarrow> None)))"

text \<open>
  The group of a feature type and the weight \<^verbatim>\<open>extractFeatures\<close> names for that group
  (0.35 description, 0.25 amount, 0.20 vendor, 0.15 date, 0.05 transaction type).
\<close>

definition groupWeight :: "string \<Rightarrow> real" where
  "groupWeight ty =
     (if ty \<in> set [''description_word'', ''description_word_pair''] then 0.35
      else if ty \<in> set [''amount_range'', ''amount_type''] then 0.25
      else if ty \<in> set [''vendor'', ''vendor_type''] then 0.20
      else if ty \<in> set [''day_of_week'', ''day_of_month'', ''date_type''] then 0.15
      else 0.05)"

text \<open>
  The cascade in the words of the specification, to be compared with
  \<^verbatim>\<open>mapTransaction\<close>: the RAGMapper result if its confidence exceeds 0.8; otherwise,
  when both candidate lists of the pattern matcher are non-empty and the smaller of the
  two head confidences exceeds 0.7, the two head candidates with that confidence;
  otherwise the two accounts of the account matcher with confidence 0.6 if both the debit
  and the credit entry resolve; otherwise confidence 0. The message names the stage.
\<close>

definition spec_cascade :: "runtime \<Rightarrow> Services \<Rightarrow> Transaction \<Rightarrow> MappingResult \<times> string" where
  "spec_cascade rt s transaction =
     (let rag = RAGMapper_mapTransaction rt (ragMapper s) transaction;
          ds = debitMatches (findMatches rt (transactionPatternMatcher s) transaction);
          cs = creditMatches (findMatches rt (transactionPatternMatcher s) transaction)
      in if js_gt (confidence rag) (Num 0.8) then (rag, ''RAG mapping successful'')
         else if ds \<noteq> [] \<and> cs \<noteq> [] \<and>
                 min (pm_confidence (hd ds)) (pm_confidence (hd cs)) > 0.7
         then (\<lparr>debitAccount = Some (IdOnly (accountId (hd ds))),
                creditAccount = Some (IdOnly (accountId (hd cs))),
                confidence = Num (min (pm_confidence (hd ds)) (pm_confidence (hd cs)))\<rparr>,
               ''Pattern matching successful'')
         else
           (case (find_entry Debit transaction, find_entry Credit transaction) of
              (Some debitEntry, Some creditEntry) \<Rightarrow>
                (case (findMatchingAccount rt (accountMatcher s) debitEntry transaction,
                       findMatchingAccount rt (accountMatcher s) creditEntry transaction) of
                   (Some debit, Some credit) \<Rightarrow>
                     (\<lparr>debitAccount = Some (FullAccount debit),
                       creditAccount = Some (FullAccount credit),
                       confidence = Num 0.6\<rparr>,
                      ''Account matching successful'')
                 | _ \<Rightarrow> (unmapped, ''No successful mapping found''))
            | _ \<Rightarrow> (unmapped, ''No successful mapping found'')))"

text \<open>The candidates of the exact historical hit and of the exact vendor hit.\<close>

definition exactMatches :: "TransactionPatternMatcher \<Rightarrow> Transaction \<Rightarrow> Matches" where
  "exactMatches s transaction =
     (let results0 = \<lparr>debitMatches = [], creditMatches = []\<rparr>;
          results1 = (case findHistoricalMatch s transaction of
                        None \<Rightarrow> results0
                      | Some historicalMatch \<Rightarrow>
                          push_pair historicalMatch 0.95 ''Historical pattern match'' results0)
      in case findVendorMatch s transaction of
           None \<Rightarrow> results1
         | Some vendorMatch \<Rightarrow> push_pair vendorMatch 0.9 ''Vendor pattern match'' results1)"




text \<open>A number that is \<^verbatim>\<open>NaN\<close> or lies between 0 and a bound.\<close>

definition nan_or_within :: "real \<Rightarrow> jsnum \<Rightarrow> bool" where
  "nan_or_within u x = (case x of NaN \<Rightarrow> True | Num c \<Rightarrow> 0 \<le> c \<and> c \<le> u)"

text \<open>No usage count without a learned description.\<close>

definition usage_follows_history :: "TransactionPatternMatcher \<Rightarrow> bool" where
  "usage_follows_history t = (historicalPatterns t = [] \<longrightarrow> accountUsageFrequency t = [])"

section \<open>An example chart of accounts\<close>

definition example_standard :: AccountingStandard where
  "example_standard =
     \<lparr>std_name = ''GAAP'',
      signConventions = [''asset'' \<mapsto> Debit, ''expense'' \<mapsto> Debit,
                         ''liability'' \<mapsto> Credit, ''revenue'' \<mapsto> Credit]\<rparr>"

definition cash_account :: Account where
  "cash_account =
     \<lparr>acc_id = ''acc-cash'', acc_code = ''1000'', acc_name = ''Cash'', acc_description = None,
      acc_type = ''asset'', acc_subtype = ''current'', acc_isActive = True\<rparr>"

definition supplies_account :: Account where
  "supplies_account =
     \<lparr>acc_id = ''acc-supplies'', acc_code = ''5200'', acc_name = ''Office Supplies'',
      acc_description = Some ''Office supplies expense'',
      acc_type = ''expense'', acc_subtype = ''operating'', acc_isActive = True\<rparr>"

definition sales_account :: Account where
  "sales_account =
     \<lparr>acc_id = ''acc-sales'', acc_code = ''4000'', acc_name = ''Sales Revenue'',
      acc_description = None,
      acc_type = ''revenue'', acc_subtype = ''operating'', acc_isActive = True\<rparr>"

definition till_account :: Account where
  "till_account =
     \<lparr>acc_id = ''acc-till'', acc_code = ''0100'', acc_name = ''Till'', acc_description = None,
      acc_type = ''asset'', acc_subtype = ''current'', acc_isActive = True\<rparr>"

definition float_account :: Account where
  "float_account =
     \<lparr>acc_id = ''acc-float'', acc_code = ''100'', acc_name = ''Float'', acc_description = None,
      acc_type = ''asset'', acc_subtype = ''current'', acc_isActive = True\<rparr>"

definition petty_account :: Account where
  "petty_account =
     \<lparr>acc_id = ''acc-petty'', acc_code = ''CASH'', acc_name = ''Petty cash'',
      acc_description = None,
      acc_type = ''asset'', acc_subtype = ''current'', acc_isActive = True\<rparr>"

definition example_runtime :: runtime where
  "example_runtime =
     \<lparr>cosine = (\<lambda>a b. if a = b then 1 else 0),
      compareTwoStrings = (\<lambda>a b. if a = b then 1 else 0),
      parseFloat = (\<lambda>s. if s = ''500.00'' then 500 else 0),
      getDay = (\<lambda>d. 1),
      getDate = (\<lambda>d. 15),
      lastDateOfMonth = (\<lambda>d. 31)\<rparr>"

definition debit_entry :: "string \<Rightarrow> TransactionEntry" where
  "debit_entry number = \<lparr>ent_accountNumber = number, ent_type = Debit, ent_amount = ''500.00''\<rparr>"

definition credit_entry :: "string \<Rightarrow> TransactionEntry" where
  "credit_entry number = \<lparr>ent_accountNumber = number, ent_type = Credit, ent_amount = ''500.00''\<rparr>"

definition supplies_payment :: Transaction where
  "supplies_payment =
     \<lparr>tx_description = ''Payment for office supplies'', tx_customerName = None,
      tx_date = ''2024-01-15'',
      tx_entries = [debit_entry ''5200'', credit_entry ''4000'']\<rparr>"

definition example_chart :: "Account list" where
  "example_chart = [cash_account, supplies_account, sales_account]"

text \<open>The services before \<^verbatim>\<open>initialize\<close>: the field initializers of the classes.\<close>

definition blank_services :: Services where
  "blank_services =
     \<lparr>initialized = False,
      ragMapper = \<lparr>rag_accounts = [], rag_standard = None, rag_accountEmbeddings = [],
                   rag_vocabulary = []\<rparr>,
      accountMatcher = \<lparr>am_accounts = [], am_standard = None, am_accountPatterns = []\<rparr>,
      transactionPatternMatcher = TransactionPatternMatcher_initialize,
      accountPatternBuilder = \<lparr>apb_patterns = [], apb_vocabulary = []\<rparr>\<rparr>"

definition example_services :: Services where
  "example_services = MappingOrchestrator_initialize example_chart example_standard blank_services"

text \<open>
  The services after the payment for office supplies was confirmed as a debit of the
  supplies account and a credit of the sales account.
\<close>

definition learned_services :: Services where
  "learned_services =
     example_services\<lparr>transactionPatternMatcher :=
        learnFromTransaction supplies_payment ''acc-supplies'' ''acc-sales''
          (transactionPatternMatcher example_services)\<rparr>"

text \<open>The same, had the confirmed mapping named the supplies account on both sides.\<close>

definition mislearned_services :: Services where
  "mislearned_services =
     example_services\<lparr>transactionPatternMatcher :=
        learnFromTransaction supplies_payment ''acc-supplies'' ''acc-supplies''
          (transactionPatternMatcher example_services)\<rparr>"

text \<open>The payment again, as a later file writes it: with a trailing blank.\<close>

definition supplies_payment_again :: Transaction where
  "supplies_payment_again = supplies_payment\<lparr>tx_description := ''Payment for office supplies ''\<rparr>"

text \<open>A near-duplicate description, and a transaction that lost its credit entry.\<close>

definition supplies_payment_cut :: Transaction where
  "supplies_payment_cut = supplies_payment\<lparr>tx_description := ''Payment for office suppl''\<rparr>"

definition one_sided_payment :: Transaction where
  "one_sided_payment = supplies_payment\<lparr>tx_entries := [debit_entry ''5200'']\<rparr>"


section \<open>Properties\<close>

subsection \<open>Auxiliary facts\<close>

lemma calculateSimilarity_strings:
  "SimilarityCalculator_calculateSimilarity rt (JString a) (JString b) =
     Inl (if length a \<noteq> length b then DimensionMismatch else TypeError)"
  by (simp add: SimilarityCalculator_calculateSimilarity_def computeCosineSimilarity_def)

lemma calculateSimilarity_arrays:
  "SimilarityCalculator_calculateSimilarity rt (JArray a) (JArray b) =
     (if length a \<noteq> length b then Inl DimensionMismatch
      else Inr (if a = [] then Num 0
                else if is_zero_vector a \<or> is_zero_vector b then NaN
                else Num (cosine rt a b)))"
  by (simp add: SimilarityCalculator_calculateSimilarity_def computeCosineSimilarity_def)

lemma TextProcessor_calculateSimilarity_arrays:
  "TextProcessor_calculateSimilarity rt (JArray a) (JArray b) = Inl TypeError"
  by (simp add: TextProcessor_calculateSimilarity_def)

lemma map_throwing_set:
  "map_throwing f xs = Inr ys \<Longrightarrow> y \<in> set ys \<Longrightarrow> \<exists>x \<in> set xs. f x = Inr y"
  by (induction xs arbitrary: ys) (auto split: sum.splits)

lemma find_SomeD: "List.find P xs = Some x \<Longrightarrow> x \<in> set xs \<and> P x"
  by (auto simp: find_Some_iff)

lemma find_first_split:
  "List.find P xs = Some x \<Longrightarrow> \<exists>before after. xs = before @ x # after \<and> (\<forall>b \<in> set before. \<not> P b)"
proof (induction xs)
  case Nil
  then show ?case by simp
next
  case (Cons y ys)
  show ?case
  proof (cases "P y")
    case True
    with Cons.prems have "x = y" by simp
    then have "y # ys = [] @ x # ys \<and> (\<forall>b \<in> set []. \<not> P b)" by simp
    then show ?thesis by blast
  next
    case False
    with Cons obtain before after where "ys = before @ x # after" "\<forall>b \<in> set before. \<not> P b"
      by auto
    with False have "y # ys = (y # before) @ x # after \<and> (\<forall>b \<in> set (y # before). \<not> P b)"
      by simp
    then show ?thesis by blast
  qed
qed

lemma scoreAccount_throws:
  "scoreAccount rt m pd d ty amt a =
     Inl (if length d \<noteq> length (acc_name a @ '' '' @ or_empty (acc_description a))
          then DimensionMismatch else TypeError)"
  by (simp add: scoreAccount_def calculateSimilarity_strings Let_def)

lemma findDescriptionMatch_no_candidate:
  "findDescriptionMatch rt m d ty amt \<noteq> Inr (Some a)"
proof (cases "filter acc_isActive (am_accounts m)")
  case Nil
  then show ?thesis by (simp add: findDescriptionMatch_def js_sort_desc_num_def)
next
  case (Cons x xs)
  then show ?thesis by (simp add: findDescriptionMatch_def scoreAccount_throws)
qed

lemma normalizeCode_digits: "list_all is_digit (normalizeCode s)"
  unfolding normalizeCode_def list_all_iff
  by (auto dest: set_dropWhileD)

lemma AccountMatcher_initialize_simps:
  "am_accounts (AccountMatcher_initialize accounts standard) = accounts"
  "am_standard (AccountMatcher_initialize accounts standard) = Some standard"
  by (simp_all add: AccountMatcher_initialize_def)

lemma take_dropWhile_neq: "P c \<Longrightarrow> take (Suc 0) (dropWhile P xs) \<noteq> [c]"
  by (induction xs) auto

lemma normalizeCode_no_leading_zero: "\<not> starts_with (normalizeCode s) ''0''"
  by (simp add: starts_with_def normalizeCode_def take_dropWhile_neq)

lemma similar_loop_throws:
  "h \<noteq> [] \<Longrightarrow> \<exists>e. similar_loop rt d h r = Inl e"
  by (cases h) (auto simp: calculateSimilarity_strings)

lemma findMatches_learned:
  assumes "historicalPatterns t \<noteq> []"
  shows "findMatches rt t tx = exactMatches t tx"
proof -
  obtain e where "findSimilarDescriptionMatches rt t tx = Inl e"
    using similar_loop_throws [OF assms] unfolding findSimilarDescriptionMatches_def by blast
  then show ?thesis by (simp add: findMatches_def exactMatches_def Let_def)
qed

lemma findMatches_fresh:
  assumes "historicalPatterns t = []" "accountUsageFrequency t = []"
  shows "findMatches rt t tx = exactMatches t tx"
  using assms
  by (simp add: findMatches_def findSimilarDescriptionMatches_def getFrequencyBasedMatches_def
      js_sort_desc_def exactMatches_def Let_def split: option.splits)

lemma map_set_nonempty: "map_set k v m \<noteq> []"
  by (cases m) (auto split: if_splits)

lemma map_of_map_set: "map_of (map_set k v m) k = Some v"
  by (induction m) auto

lemma learned_nonempty:
  "historicalPatterns (learnFromTransaction tx d c t0) \<noteq> []"
  by (simp add: learnFromTransaction_def Let_def map_set_nonempty)

subsection \<open>AccountMatcher\<close>

text \<open>
  C6. With a standard set, \<^verbatim>\<open>findMatchingAccount\<close> returns the candidate of the first
  stage that finds one exactly when the standard has a sign convention for the candidate's
  account type and its normal balance is the entry's type; in every other case (no
  candidate, no convention for the type, or a different normal balance) it returns no
  account. It is a total function into \<open>option\<close>: an exception of the description stage
  is caught and gives no account. (\<^verbatim>\<open>initialize\<close> sets the standard, and nothing resets
  it.)
\<close>

theorem findMatchingAccount_sign_convention_gate:
  assumes "am_standard m = Some standard"
  shows "findMatchingAccount rt m entry transaction =
     (case firstCandidate rt m entry transaction of
        None \<Rightarrow> None
      | Some candidate \<Rightarrow>
          (if signConventions standard (acc_type candidate) = Some (ent_type entry)
           then Some candidate else None))"
proof -
  have v: "validateAccountMatch m a entry =
      (signConventions standard (acc_type a) = Some (ent_type entry))" for a
    using assms by (auto simp: validateAccountMatch_def split: option.splits)
  show ?thesis
    by (simp add: findMatchingAccount_def firstCandidate_def v split: option.splits sum.splits)
qed

theorem findMatchingAccount_sign_convention_gate_witness:
  "am_standard (AccountMatcher_initialize [cash_account, supplies_account] example_standard) =
     Some example_standard \<and>
   findMatchingAccount example_runtime
     (AccountMatcher_initialize [cash_account, supplies_account] example_standard)
     (debit_entry ''5200'') supplies_payment = Some supplies_account \<and>
   firstCandidate example_runtime
     (AccountMatcher_initialize [cash_account, supplies_account] example_standard)
     (credit_entry ''1000'') supplies_payment = Some cash_account \<and>
   findMatchingAccount example_runtime
     (AccountMatcher_initialize [cash_account, supplies_account] example_standard)
     (credit_entry ''1000'') supplies_payment = None"
proof -
  let ?m = "AccountMatcher_initialize [cash_account, supplies_account] example_standard"
  have st: "am_standard ?m = Some example_standard"
    by (simp add: AccountMatcher_initialize_simps)
  have c1: "firstCandidate example_runtime ?m (debit_entry ''5200'') supplies_payment =
      Some supplies_account"
    by (simp add: firstCandidate_def findExactMatch_def AccountMatcher_initialize_simps debit_entry_def
        cash_account_def supplies_account_def)
  have c2: "firstCandidate example_runtime ?m (credit_entry ''1000'') supplies_payment =
      Some cash_account"
    by (simp add: firstCandidate_def findExactMatch_def AccountMatcher_initialize_simps credit_entry_def
        cash_account_def supplies_account_def)
  show ?thesis
    using findMatchingAccount_sign_convention_gate [OF st, of example_runtime "debit_entry ''5200''" supplies_payment]
      findMatchingAccount_sign_convention_gate [OF st, of example_runtime "credit_entry ''1000''" supplies_payment]
    by (simp add: st c1 c2)
       (simp add: example_standard_def supplies_account_def cash_account_def
          debit_entry_def credit_entry_def)
qed

text \<open>
  C7, as the claim states it: an account number that normalizes to the empty string would
  find no fuzzy match. The code has no such guard: \<open>N/A\<close> has no digit, the code \<open>CASH\<close>
  has none either, and the fuzzy stage returns that account, which
  \<^verbatim>\<open>findMatchingAccount\<close> then hands out for a debit entry.
\<close>

theorem fuzzy_match_on_empty_normalization:
  "normalizeCode ''N/A'' = [] \<and>
   findExactMatch (AccountMatcher_initialize [petty_account] example_standard) ''N/A'' = None \<and>
   findFuzzyCodeMatch (AccountMatcher_initialize [petty_account] example_standard) ''N/A'' =
     Some petty_account \<and>
   findMatchingAccount example_runtime (AccountMatcher_initialize [petty_account] example_standard)
     (debit_entry ''N/A'') supplies_payment = Some petty_account"
  by (simp add: normalizeCode_def is_digit_def findExactMatch_def findFuzzyCodeMatch_def
      findMatchingAccount_def validateAccountMatch_def AccountMatcher_initialize_simps petty_account_def
      debit_entry_def example_standard_def)

text \<open>
  C7, amended. The fuzzy stage returns the first active account whose code, with every
  non-digit and then the leading zeros removed, equals the account number treated the same
  way, and no account when there is none. A normalized string has digits only and does not
  start with a zero; \<open>0100\<close> and \<open>100\<close> both normalize to \<open>100\<close>, and \<open>0200\<close> to \<open>200\<close>.
  An account number that normalizes to the empty string is matched like any other: it finds
  an active account whose code normalizes to the empty string whenever the chart has one.
\<close>

theorem findFuzzyCodeMatch_normalized:
  "(case findFuzzyCodeMatch m accountNumber of
      Some a \<Rightarrow> a \<in> set (am_accounts m) \<and> acc_isActive a \<and>
                normalizeCode (acc_code a) = normalizeCode accountNumber \<and>
                (\<exists>before after. am_accounts m = before @ a # after \<and>
                   \<not> list_ex (\<lambda>b. acc_isActive b \<and>
                     normalizeCode (acc_code b) = normalizeCode accountNumber) before)
    | None \<Rightarrow> \<not> list_ex (\<lambda>a. acc_isActive a \<and>
                normalizeCode (acc_code a) = normalizeCode accountNumber) (am_accounts m)) \<and>
   list_all is_digit (normalizeCode accountNumber) \<and>
   \<not> starts_with (normalizeCode accountNumber) ''0'' \<and>
   normalizeCode ''0100'' = ''100'' \<and> normalizeCode ''100'' = ''100'' \<and>
   normalizeCode ''0200'' = ''200'' \<and>
   (normalizeCode accountNumber = [] \<longrightarrow>
      (findFuzzyCodeMatch m accountNumber \<noteq> None) =
      list_ex (\<lambda>a. acc_isActive a \<and> normalizeCode (acc_code a) = []) (am_accounts m))"
proof -
  let ?P = "\<lambda>a. normalizeCode (acc_code a) = normalizeCode accountNumber \<and> acc_isActive a"
  have f: "findFuzzyCodeMatch m accountNumber = List.find ?P (am_accounts m)"
    by (simp add: findFuzzyCodeMatch_def Let_def)
  have 1: "(case findFuzzyCodeMatch m accountNumber of
      Some a \<Rightarrow> a \<in> set (am_accounts m) \<and> acc_isActive a \<and>
                normalizeCode (acc_code a) = normalizeCode accountNumber \<and>
                (\<exists>before after. am_accounts m = before @ a # after \<and>
                   \<not> list_ex (\<lambda>b. acc_isActive b \<and>
                     normalizeCode (acc_code b) = normalizeCode accountNumber) before)
    | None \<Rightarrow> \<not> list_ex (\<lambda>a. acc_isActive a \<and>
                normalizeCode (acc_code a) = normalizeCode accountNumber) (am_accounts m))"
  proof (cases "findFuzzyCodeMatch m accountNumber")
    case None
    then have "List.find ?P (am_accounts m) = None"
      unfolding f .
    then have "\<not> list_ex (\<lambda>a. acc_isActive a \<and>
        normalizeCode (acc_code a) = normalizeCode accountNumber) (am_accounts m)"
      by (auto simp: find_None_iff list_ex_iff)
    with None show ?thesis by simp
  next
    case (Some a)
    from Some have a: "a \<in> set (am_accounts m)" "?P a"
      unfolding f by (auto dest: find_SomeD)
    from Some obtain before after where
      "am_accounts m = before @ a # after" "\<forall>b \<in> set before. \<not> ?P b"
      unfolding f by (auto dest: find_first_split)
    then have "\<exists>before after. am_accounts m = before @ a # after \<and>
        \<not> list_ex (\<lambda>b. acc_isActive b \<and>
          normalizeCode (acc_code b) = normalizeCode accountNumber) before"
      by (auto simp: list_ex_iff)
    with Some a show ?thesis by simp
  qed
  have 2: "normalizeCode ''0100'' = ''100''" "normalizeCode ''100'' = ''100''"
    "normalizeCode ''0200'' = ''200''"
    by (simp_all add: normalizeCode_def is_digit_def)
  have 3: "(findFuzzyCodeMatch m accountNumber \<noteq> None) =
      list_ex (\<lambda>a. acc_isActive a \<and> normalizeCode (acc_code a) = []) (am_accounts m)"
    if "normalizeCode accountNumber = []"
    unfolding f using that by (auto simp: find_None_iff list_ex_iff)
  show ?thesis
    using 1 2 3 normalizeCode_digits normalizeCode_no_leading_zero by blast
qed

theorem findFuzzyCodeMatch_normalized_witness:
  "findFuzzyCodeMatch (AccountMatcher_initialize [till_account] example_standard) ''100'' =
     Some till_account \<and>
   findFuzzyCodeMatch (AccountMatcher_initialize [till_account] example_standard) ''0100'' =
     Some till_account \<and>
   findFuzzyCodeMatch (AccountMatcher_initialize [till_account] example_standard) ''0200'' = None \<and>
   findFuzzyCodeMatch (AccountMatcher_initialize [till_account, float_account] example_standard)
     ''100'' = Some till_account \<and>
   normalizeCode ''N/A'' = [] \<and>
   findFuzzyCodeMatch (AccountMatcher_initialize [petty_account] example_standard) ''N/A'' \<noteq> None"
proof -
  let ?till = "AccountMatcher_initialize [till_account] example_standard"
  let ?both = "AccountMatcher_initialize [till_account, float_account] example_standard"
  let ?petty = "AccountMatcher_initialize [petty_account] example_standard"
  have n: "normalizeCode ''N/A'' = []" "normalizeCode ''CASH'' = []"
    "normalizeCode ''0100'' = ''100''" "normalizeCode ''100'' = ''100''"
    "normalizeCode ''0200'' = ''200''"
    by (simp_all add: normalizeCode_def is_digit_def)
  have a: "findFuzzyCodeMatch ?till ''100'' = Some till_account"
    using findFuzzyCodeMatch_normalized [where m = ?till and accountNumber = "''100''"]
    by (auto simp: n AccountMatcher_initialize_simps till_account_def split: option.splits)
  have b: "findFuzzyCodeMatch ?till ''0100'' = Some till_account"
    using findFuzzyCodeMatch_normalized [where m = ?till and accountNumber = "''0100''"]
    by (auto simp: n AccountMatcher_initialize_simps till_account_def split: option.splits)
  have c: "findFuzzyCodeMatch ?till ''0200'' = None"
    using findFuzzyCodeMatch_normalized [where m = ?till and accountNumber = "''0200''"]
    by (auto simp: n AccountMatcher_initialize_simps till_account_def split: option.splits)
  have d: "findFuzzyCodeMatch ?petty ''N/A'' \<noteq> None"
    using findFuzzyCodeMatch_normalized [where m = ?petty and accountNumber = "''N/A''"]
    by (simp add: n AccountMatcher_initialize_simps petty_account_def)
  have e: "findFuzzyCodeMatch ?both ''100'' = Some till_account"
  proof (cases "findFuzzyCodeMatch ?both ''100''")
    case None
    with findFuzzyCodeMatch_normalized [where m = ?both and accountNumber = "''100''"]
    show ?thesis
      by (simp add: n AccountMatcher_initialize_simps till_account_def)
  next
    case (Some x)
    with findFuzzyCodeMatch_normalized [where m = ?both and accountNumber = "''100''"]
    obtain before after where
      s: "[till_account, float_account] = before @ x # after" and
      nb: "\<not> list_ex (\<lambda>b. acc_isActive b \<and> normalizeCode (acc_code b) = normalizeCode ''100'') before"
      by (auto simp: AccountMatcher_initialize_simps)
    have "before = []"
    proof (cases before)
      case Nil
      then show ?thesis .
    next
      case (Cons y ys)
      with s have "y = till_account" by simp
      with nb Cons show ?thesis by (simp add: n till_account_def)
    qed
    with s have "x = till_account" by simp
    with Some show ?thesis by simp
  qed
  from a b c d e n show ?thesis by simp
qed

subsection \<open>AccountPatternBuilder\<close>

text \<open>
  C9. What \<^verbatim>\<open>findSimilarAccounts\<close> does with the patterns that pass the type filter: it
  asks \<^verbatim>\<open>textProcessor.calculateSimilarity\<close>, the comparison of two strings, for the
  similarity of the two vectors, and that call throws a \<^verbatim>\<open>TypeError\<close> on the first
  pattern. The method returns the empty list when no pattern passes the filter and throws
  otherwise; it never returns a ranked pair.
\<close>

theorem findSimilarAccounts_throws:
  "findSimilarAccounts rt b text ty limit =
     (if filter (\<lambda>(_, pattern). \<not> truthy ty \<or> Some (p_type pattern) = ty) (apb_patterns b) = []
      then Inr [] else Inl TypeError)"
proof -
  let ?ps = "filter (\<lambda>(_, pattern). \<not> truthy ty \<or> Some (p_type pattern) = ty) (apb_patterns b)"
  show ?thesis
  proof (cases ?ps)
    case Nil
    then show ?thesis by (simp add: findSimilarAccounts_def js_sort_desc_def)
  next
    case (Cons p ps)
    then show ?thesis
      by (simp add: findSimilarAccounts_def TextProcessor_calculateSimilarity_arrays split: prod.splits)
  qed
qed

theorem findSimilarAccounts_throws_witness:
  "findSimilarAccounts example_runtime
     (buildPatterns [cash_account] \<lparr>apb_patterns = [], apb_vocabulary = []\<rparr>)
     ''cash'' None None = Inl TypeError"
  using findSimilarAccounts_throws [of example_runtime
      "buildPatterns [cash_account] \<lparr>apb_patterns = [], apb_vocabulary = []\<rparr>" "''cash''" None None]
  by (simp add: buildPatterns_def truthy_def Let_def)

subsection \<open>TransactionFeatureExtractor\<close>

text \<open>
  C8. The weight of every feature that \<^verbatim>\<open>extractFeatures\<close> returns is the weight of its
  group and nothing else: the spread \<^verbatim>\<open>{ ...f, weight: 0.35 }\<close> replaces the weight the
  group's extractor had given the feature (1, 1.2 or 1.5). The feature of an adjacent pair
  of description tokens comes back with 0.35, as the feature of a single token does.
\<close>

theorem extractFeatures_weight_is_group_weight:
  "list_all (\<lambda>f. f_weight f = groupWeight (f_type f)) (extractFeatures rt transaction)"
  by (auto simp: extractFeatures_def list_all_iff groupWeight_def extractDescriptionFeatures_def
      extractAmountFeatures_def extractVendorFeatures_def extractDateFeatures_def Let_def)

lemma processText_supplies:
  "processText ''Payment for office supplies'' = [''payment'', ''office'', ''supplies'']"
  by (simp add: processText_def split_regex_def toLowerCase_def to_lower_def is_space_def
      is_lower_alnum_def stopWords_def)

theorem extractFeatures_weight_is_group_weight_witness:
  "extractDescriptionFeatures (tx_description supplies_payment) ! 4 =
     \<lparr>f_type = ''description_word_pair'', f_value = FStr ''office_supplies'', f_weight = 1.2\<rparr> \<and>
   extractFeatures example_runtime supplies_payment ! 4 =
     \<lparr>f_type = ''description_word_pair'', f_value = FStr ''office_supplies'', f_weight = 0.35\<rparr> \<and>
   list_all (\<lambda>f. f_weight f = groupWeight (f_type f))
     (extractFeatures example_runtime supplies_payment)"
proof -
  have d: "extractDescriptionFeatures ''Payment for office supplies'' =
    [\<lparr>f_type = ''description_word'', f_value = FStr ''payment'', f_weight = 1\<rparr>,
     \<lparr>f_type = ''description_word'', f_value = FStr ''office'', f_weight = 1\<rparr>,
     \<lparr>f_type = ''description_word'', f_value = FStr ''supplies'', f_weight = 1\<rparr>,
     \<lparr>f_type = ''description_word_pair'', f_value = FStr ''payment_office'', f_weight = 1.2\<rparr>,
     \<lparr>f_type = ''description_word_pair'', f_value = FStr ''office_supplies'', f_weight = 1.2\<rparr>]"
    by (simp add: extractDescriptionFeatures_def processText_supplies upt_rec)
  have "extractFeatures example_runtime supplies_payment ! 4 =
     \<lparr>f_type = ''description_word_pair'', f_value = FStr ''office_supplies'', f_weight = 0.35\<rparr>"
    by (simp add: extractFeatures_def supplies_payment_def d nth_append)
  with d show ?thesis
    using extractFeatures_weight_is_group_weight [of example_runtime supplies_payment]
    by (simp add: supplies_payment_def)
qed

subsection \<open>TransactionPatternMatcher\<close>

text \<open>
  C5. Once a mapping has been learned, \<^verbatim>\<open>findMatches\<close> returns the exact historical hit
  (0.95) and the exact vendor hit (0.9) and nothing else. The first round of
  \<^verbatim>\<open>findSimilarDescriptionMatches\<close> passes two strings to
  \<^verbatim>\<open>similarityCalculator.calculateSimilarity\<close>, which throws; the \<^verbatim>\<open>catch\<close> of
  \<^verbatim>\<open>findMatches\<close> returns what was pushed before, so neither a candidate for a similar
  description nor a frequency candidate is returned. The exact hit of Scenario C is: a
  transaction with the learned normalized description finds the learned pair, at the head
  of both lists.
\<close>

theorem findMatches_after_learning:
  assumes "t = learnFromTransaction learned debitAccountId creditAccountId t0"
  shows "(\<exists>e. findSimilarDescriptionMatches rt t transaction = Inl e) \<and>
     findMatches rt t transaction = exactMatches t transaction \<and>
     (normalizeText (tx_description transaction) = normalizeText (tx_description learned) \<longrightarrow>
        hd (debitMatches (findMatches rt t transaction)) =
          \<lparr>accountId = debitAccountId, pm_confidence = 0.95, reason = ''Historical pattern match''\<rparr> \<and>
        hd (creditMatches (findMatches rt t transaction)) =
          \<lparr>accountId = creditAccountId, pm_confidence = 0.95, reason = ''Historical pattern match''\<rparr>)"
proof -
  have ne: "historicalPatterns t \<noteq> []"
    using assms by (simp add: learned_nonempty)
  have 1: "\<exists>e. findSimilarDescriptionMatches rt t transaction = Inl e"
    using similar_loop_throws [OF ne] by (simp add: findSimilarDescriptionMatches_def)
  have 2: "findMatches rt t transaction = exactMatches t transaction"
    by (rule findMatches_learned [OF ne])
  have 3: "findHistoricalMatch t transaction =
      Some \<lparr>lp_debit = debitAccountId, lp_credit = creditAccountId\<rparr>"
    if "normalizeText (tx_description transaction) = normalizeText (tx_description learned)"
    using that assms
    by (simp add: findHistoricalMatch_def learnFromTransaction_def Let_def map_of_map_set)
  show ?thesis
    using 1 2 3
    by (auto simp: exactMatches_def push_pair_def Let_def split: option.splits)
qed

lemma normalizeText_supplies:
  "normalizeText ''Payment for office supplies'' = ''payment for office supplies''"
  "normalizeText ''Payment for office supplies '' = ''payment for office supplies''"
  "normalizeText ''Payment for office suppl'' = ''payment for office suppl''"
  by (simp_all add: normalizeText_def trim_def toLowerCase_def to_lower_def is_space_def)

lemma learned_tables:
  "transactionPatternMatcher learned_services =
     \<lparr>historicalPatterns = [(''payment for office supplies'',
          \<lparr>lp_debit = ''acc-supplies'', lp_credit = ''acc-sales''\<rparr>)],
      vendorPatterns = [],
      accountUsageFrequency = [(''acc-supplies'', 1), (''acc-sales'', 1)]\<rparr>"
  by (simp add: learned_services_def example_services_def MappingOrchestrator_initialize_def
      TransactionPatternMatcher_initialize_def learnFromTransaction_def supplies_payment_def
      normalizeText_supplies truthy_def incrementAccountUsage_def Let_def)

theorem findMatches_after_learning_witness:
  "transactionPatternMatcher learned_services =
     learnFromTransaction supplies_payment ''acc-supplies'' ''acc-sales''
       (transactionPatternMatcher example_services) \<and>
   findMatches example_runtime (transactionPatternMatcher learned_services) supplies_payment_cut =
     \<lparr>debitMatches = [], creditMatches = []\<rparr> \<and>
   findMatches example_runtime (transactionPatternMatcher learned_services) supplies_payment =
     \<lparr>debitMatches = [\<lparr>accountId = ''acc-supplies'', pm_confidence = 0.95,
                        reason = ''Historical pattern match''\<rparr>],
      creditMatches = [\<lparr>accountId = ''acc-sales'', pm_confidence = 0.95,
                         reason = ''Historical pattern match''\<rparr>]\<rparr>"
proof -
  let ?t = "transactionPatternMatcher learned_services"
  have t: "?t = learnFromTransaction supplies_payment ''acc-supplies'' ''acc-sales''
       (transactionPatternMatcher example_services)"
    by (simp add: learned_services_def)
  have a: "exactMatches ?t supplies_payment_cut = \<lparr>debitMatches = [], creditMatches = []\<rparr>"
    by (simp add: learned_tables exactMatches_def findHistoricalMatch_def findVendorMatch_def
        supplies_payment_cut_def supplies_payment_def normalizeText_supplies truthy_def)
  have b: "exactMatches ?t supplies_payment =
     \<lparr>debitMatches = [\<lparr>accountId = ''acc-supplies'', pm_confidence = 0.95,
                        reason = ''Historical pattern match''\<rparr>],
      creditMatches = [\<lparr>accountId = ''acc-sales'', pm_confidence = 0.95,
                         reason = ''Historical pattern match''\<rparr>]\<rparr>"
    by (simp add: learned_tables exactMatches_def findHistoricalMatch_def findVendorMatch_def
        supplies_payment_def normalizeText_supplies truthy_def push_pair_def)
  show ?thesis
    using findMatches_after_learning [OF t, of example_runtime supplies_payment_cut]
      findMatches_after_learning [OF t, of example_runtime supplies_payment]
    by (simp only: a b t [symmetric] simp_thms)
qed

subsection \<open>Auxiliary facts about the stages\<close>

lemma scoreEmbedding_pick:
  assumes cos: "\<forall>a b. V a \<and> V b \<and> \<not> is_zero_vector a \<and> \<not> is_zero_vector b \<longrightarrow>
                 0 \<le> cosine rt a b \<and> cosine rt a b \<le> B"
    and B: "0 \<le> B"
    and V: "V emb" "V (snd entry)"
    and sc: "scoreEmbedding rt m emb de entry = Inr (Some a, sim)"
    and st: "rag_standard m = Some standard"
    and nb: "signConventions standard (acc_type a) = Some normalBalance"
  shows "nan_or_within
           (B * getSignConventionBoost normalBalance (parseFloat rt (ent_amount de))) sim"
proof -
  let ?boost = "getSignConventionBoost normalBalance (parseFloat rt (ent_amount de))"
  have b: "0 < ?boost"
    by (simp add: getSignConventionBoost_def)
  from sc obtain similarity where
    s: "SimilarityCalculator_calculateSimilarity rt (JArray emb) (JArray (snd entry)) =
          Inr similarity"
    by (auto simp: scoreEmbedding_def split: sum.splits)
  with sc st nb have sim: "sim = js_mult similarity (Num ?boost)"
    by (auto simp: scoreEmbedding_def Let_def split: option.splits)
  from s consider (null) "similarity = Num 0" | (nan) "similarity = NaN"
    | (num) "similarity = Num (cosine rt emb (snd entry))"
        "\<not> is_zero_vector emb" "\<not> is_zero_vector (snd entry)"
    by (auto simp: calculateSimilarity_arrays split: if_splits)
  then show ?thesis
  proof cases
    case null
    with sim B b show ?thesis by (simp add: nan_or_within_def)
  next
    case nan
    with sim show ?thesis by (simp add: nan_or_within_def)
  next
    case num
    with cos V have "0 \<le> cosine rt emb (snd entry)" "cosine rt emb (snd entry) \<le> B" by auto
    with sim num(1) b show ?thesis
      by (simp add: nan_or_within_def mult_right_mono)
  qed
qed

lemma boost_min:
  "min (getSignConventionBoost Debit x) (getSignConventionBoost Credit x) = 0.8"
  by (simp add: getSignConventionBoost_def)

lemma set_js_insert_desc: "set (js_insert_desc key x ys) = insert x (set ys)"
  by (induction ys) auto

lemma set_js_sort_desc_num: "set (js_sort_desc_num key xs) = set xs"
  unfolding js_sort_desc_num_def
  by (induction xs) (auto simp: set_js_insert_desc)

lemma js_insert_desc_Num:
  "js_insert_desc (\<lambda>x. Num (key x)) x ys = insort_key (\<lambda>x. - key x) x ys"
  by (induction ys) auto

lemma js_sort_desc_num_Num: "js_sort_desc_num (\<lambda>x. Num (key x)) xs = js_sort_desc key xs"
  unfolding js_sort_desc_num_def js_sort_desc_def sort_key_def
  by (induction xs) (auto simp: js_insert_desc_Num)

lemma findBestMatches_picks:
  assumes r: "findBestMatches rt m emb tx = Inr r" and ne: "r \<noteq> unmapped"
  shows "\<exists>de standard ed ec da ca sd sc.
           find_entry Debit tx = Some de \<and> rag_standard m = Some standard \<and>
           ed \<in> set (rag_accountEmbeddings m) \<and> ec \<in> set (rag_accountEmbeddings m) \<and>
           scoreEmbedding rt m emb de ed = Inr (Some da, sd) \<and>
           scoreEmbedding rt m emb de ec = Inr (Some ca, sc) \<and>
           signConventions standard (acc_type da) = Some Debit \<and>
           signConventions standard (acc_type ca) = Some Credit \<and>
           r = \<lparr>debitAccount = Some (FullAccount da), creditAccount = Some (FullAccount ca),
                confidence = js_min sd sc\<rparr>"
proof -
  from r ne obtain de unsorted d c where
    de: "find_entry Debit tx = Some de" and
    un: "map_throwing (scoreEmbedding rt m emb de) (rag_accountEmbeddings m) = Inr unsorted" and
    d: "List.find (\<lambda>s. isValidDebitAccount m (fst s)) (js_sort_desc_num snd unsorted) = Some d" and
    c: "List.find (\<lambda>s. fst s \<noteq> fst d \<and> isValidCreditAccount m (fst s))
          (js_sort_desc_num snd unsorted) = Some c" and
    res: "r = \<lparr>debitAccount = map_option FullAccount (fst d),
                creditAccount = map_option FullAccount (fst c),
                confidence = js_min (snd d) (snd c)\<rparr>"
    by (auto simp: findBestMatches_def Let_def split: option.splits sum.splits)
  from d have d1: "d \<in> set unsorted" "isValidDebitAccount m (fst d)"
    by (auto dest!: find_SomeD simp: set_js_sort_desc_num)
  from c have c1: "c \<in> set unsorted" "isValidCreditAccount m (fst c)"
    by (auto dest!: find_SomeD simp: set_js_sort_desc_num)
  from d1(2) obtain standard da where da: "rag_standard m = Some standard" "fst d = Some da"
    "signConventions standard (acc_type da) = Some Debit"
    by (auto simp: isValidDebitAccount_def split: option.splits)
  from c1(2) da(1) obtain ca where ca: "fst c = Some ca"
    "signConventions standard (acc_type ca) = Some Credit"
    by (auto simp: isValidCreditAccount_def split: option.splits)
  from map_throwing_set [OF un d1(1)] da(2) obtain ed where
    ed: "ed \<in> set (rag_accountEmbeddings m)"
      "scoreEmbedding rt m emb de ed = Inr (Some da, snd d)" by (metis prod.collapse)
  from map_throwing_set [OF un c1(1)] ca(1) obtain ec where
    ec: "ec \<in> set (rag_accountEmbeddings m)"
      "scoreEmbedding rt m emb de ec = Inr (Some ca, snd c)" by (metis prod.collapse)
  from res da(2) ca(1) have
    "r = \<lparr>debitAccount = Some (FullAccount da), creditAccount = Some (FullAccount ca),
          confidence = js_min (snd d) (snd c)\<rparr>" by simp
  with de da(1,3) ca(2) ed ec show ?thesis by blast
qed

lemma findBestMatches_bound:
  assumes cos: "\<forall>a b. V a \<and> V b \<and> \<not> is_zero_vector a \<and> \<not> is_zero_vector b \<longrightarrow>
                 0 \<le> cosine rt a b \<and> cosine rt a b \<le> B"
    and B: "0 \<le> B"
    and V: "V emb" "list_all (\<lambda>e. V (snd e)) (rag_accountEmbeddings m)"
    and r: "findBestMatches rt m emb tx = Inr r"
  shows "nan_or_within (B * 0.8) (confidence r)"
proof (cases "r = unmapped")
  case True
  with B show ?thesis by (simp add: unmapped_def nan_or_within_def)
next
  case False
  from findBestMatches_picks [OF r False] obtain de standard ed ec da ca sd sc where
    st: "rag_standard m = Some standard" and
    mem: "ed \<in> set (rag_accountEmbeddings m)" "ec \<in> set (rag_accountEmbeddings m)" and
    ed: "scoreEmbedding rt m emb de ed = Inr (Some da, sd)" and
    ec: "scoreEmbedding rt m emb de ec = Inr (Some ca, sc)" and
    nd: "signConventions standard (acc_type da) = Some Debit" and
    nc: "signConventions standard (acc_type ca) = Some Credit" and
    conf: "confidence r = js_min sd sc"
    by auto
  from V(2) mem have Ve: "V (snd ed)" "V (snd ec)" by (auto simp: list_all_iff)
  let ?amt = "parseFloat rt (ent_amount de)"
  have db: "nan_or_within (B * getSignConventionBoost Debit ?amt) sd"
    by (rule scoreEmbedding_pick [OF cos B V(1) Ve(1) ed st nd])
  have cb: "nan_or_within (B * getSignConventionBoost Credit ?amt) sc"
    by (rule scoreEmbedding_pick [OF cos B V(1) Ve(2) ec st nc])
  show ?thesis
  proof (cases sd)
    case NaN
    with conf show ?thesis by (simp add: nan_or_within_def)
  next
    case (Num x)
    show ?thesis
    proof (cases sc)
      case NaN
      with conf Num show ?thesis by (simp add: nan_or_within_def)
    next
      case (Num y) note y = this
      from db \<open>sd = Num x\<close> have x: "0 \<le> x" "x \<le> B * getSignConventionBoost Debit ?amt"
        by (simp_all add: nan_or_within_def)
      from cb y have yb: "0 \<le> y" "y \<le> B * getSignConventionBoost Credit ?amt"
        by (simp_all add: nan_or_within_def)
      have "min x y \<le> B * 0.8"
      proof (cases "?amt > 0")
        case True
        then have "getSignConventionBoost Credit ?amt = 0.8"
          by (simp add: getSignConventionBoost_def)
        with yb show ?thesis by (simp add: min_le_iff_disj)
      next
        case False
        then have "getSignConventionBoost Debit ?amt = 0.8"
          by (simp add: getSignConventionBoost_def)
        with x show ?thesis by (simp add: min_le_iff_disj)
      qed
      with x yb conf \<open>sd = Num x\<close> y show ?thesis by (simp add: nan_or_within_def)
    qed
  qed
qed

lemma RAGMapper_mapTransaction_bound:
  assumes "\<forall>a b. V a \<and> V b \<and> \<not> is_zero_vector a \<and> \<not> is_zero_vector b \<longrightarrow>
             0 \<le> cosine rt a b \<and> cosine rt a b \<le> B"
    and "0 \<le> B"
    and "V (createTransactionEmbedding m tx (extractFeatures rt tx))"
    and "list_all (\<lambda>e. V (snd e)) (rag_accountEmbeddings m)"
  shows "nan_or_within (B * 0.8) (confidence (RAGMapper_mapTransaction rt m tx))"
proof (cases "findBestMatches rt m (createTransactionEmbedding m tx (extractFeatures rt tx)) tx")
  case (Inl e)
  with assms(2) show ?thesis
    by (simp add: RAGMapper_mapTransaction_def unmapped_def nan_or_within_def)
next
  case (Inr r)
  from findBestMatches_bound [OF assms Inr] Inr show ?thesis
    by (simp add: RAGMapper_mapTransaction_def)
qed



lemma reachable_usage: "reachable s \<Longrightarrow> usage_follows_history (transactionPatternMatcher s)"
  by (induction rule: reachable.induct)
     (auto simp: usage_follows_history_def MappingOrchestrator_initialize_def
        TransactionPatternMatcher_initialize_def learnFromTransaction_def map_set_nonempty Let_def)


lemma reachable_standard: "reachable s \<Longrightarrow> am_standard (accountMatcher s) \<noteq> None"
  by (induction rule: reachable.induct)
     (auto simp: MappingOrchestrator_initialize_def AccountMatcher_initialize_def)


lemma tryPatternMatching_heads:
  "tryPatternMatching rt s tx =
     (let ds = debitMatches (findMatches rt (transactionPatternMatcher s) tx);
          cs = creditMatches (findMatches rt (transactionPatternMatcher s) tx)
      in if ds \<noteq> [] \<and> cs \<noteq> []
         then \<lparr>debitAccount = Some (IdOnly (accountId (hd ds))),
               creditAccount = Some (IdOnly (accountId (hd cs))),
               confidence = Num (min (pm_confidence (hd ds)) (pm_confidence (hd cs)))\<rparr>
         else unmapped)"
  by (simp add: tryPatternMatching_def Let_def split: list.splits)

lemma example_cosine_range:
  "\<forall>a b. 0 \<le> cosine example_runtime a b \<and> cosine example_runtime a b \<le> 1"
  by (simp add: example_runtime_def)

lemma findMatchingAccount_in_chart:
  assumes "findMatchingAccount rt m entry tx = Some a"
  shows "a \<in> set (am_accounts m)"
proof -
  have "firstCandidate rt m entry tx = Some a"
    using assms findDescriptionMatch_no_candidate [of rt m]
    by (auto simp: findMatchingAccount_def firstCandidate_def split: option.splits sum.splits if_splits)
  then show ?thesis
    using findDescriptionMatch_no_candidate [of rt m]
    by (auto simp: firstCandidate_def findExactMatch_def findFuzzyCodeMatch_def Let_def
        split: option.splits sum.splits dest: find_SomeD)
qed

lemma scoreEmbedding_in_chart:
  "scoreEmbedding rt m emb de entry = Inr (Some a, sim) \<Longrightarrow> a \<in> set (rag_accounts m)"
  by (auto simp: scoreEmbedding_def Let_def split: sum.splits option.splits if_splits
      dest: find_SomeD)

lemma findBestMatches_in_chart:
  assumes r: "findBestMatches rt m emb tx = Inr r" and ne: "r \<noteq> unmapped"
  shows "\<exists>d c. debitAccount r = Some (FullAccount d) \<and> creditAccount r = Some (FullAccount c) \<and>
           d \<in> set (rag_accounts m) \<and> c \<in> set (rag_accounts m) \<and> acc_type d \<noteq> acc_type c"
proof -
  from findBestMatches_picks [OF r ne] obtain de standard ed ec da ca sd sc where
    st: "rag_standard m = Some standard" and
    ed: "scoreEmbedding rt m emb de ed = Inr (Some da, sd)" and
    ec: "scoreEmbedding rt m emb de ec = Inr (Some ca, sc)" and
    nd: "signConventions standard (acc_type da) = Some Debit" and
    nc: "signConventions standard (acc_type ca) = Some Credit" and
    res: "debitAccount r = Some (FullAccount da)" "creditAccount r = Some (FullAccount ca)"
    by auto
  have "da \<in> set (rag_accounts m)" using ed by (rule scoreEmbedding_in_chart)
  moreover have "ca \<in> set (rag_accounts m)" using ec by (rule scoreEmbedding_in_chart)
  moreover have "acc_type da \<noteq> acc_type ca" using nd nc by auto
  ultimately show ?thesis using res by simp
qed

lemma RAGMapper_mapTransaction_in_chart:
  assumes "js_gt (confidence (RAGMapper_mapTransaction rt m tx)) (Num 0.8)"
  shows "\<exists>d c. debitAccount (RAGMapper_mapTransaction rt m tx) = Some (FullAccount d) \<and>
           creditAccount (RAGMapper_mapTransaction rt m tx) = Some (FullAccount c) \<and>
           d \<in> set (rag_accounts m) \<and> c \<in> set (rag_accounts m) \<and> acc_type d \<noteq> acc_type c"
proof (cases "findBestMatches rt m (createTransactionEmbedding m tx (extractFeatures rt tx)) tx")
  case (Inl e)
  with assms show ?thesis by (simp add: RAGMapper_mapTransaction_def unmapped_def)
next
  case (Inr r)
  with assms have "r \<noteq> unmapped"
    by (auto simp: RAGMapper_mapTransaction_def unmapped_def)
  from findBestMatches_in_chart [OF Inr this] Inr show ?thesis
    by (simp add: RAGMapper_mapTransaction_def)
qed

lemma tryAccountMatching_cases:
  "tryAccountMatching rt s tx = unmapped \<or>
   (\<exists>de ce d c. find_entry Debit tx = Some de \<and> find_entry Credit tx = Some ce \<and>
      findMatchingAccount rt (accountMatcher s) de tx = Some d \<and>
      findMatchingAccount rt (accountMatcher s) ce tx = Some c \<and>
      tryAccountMatching rt s tx =
        \<lparr>debitAccount = Some (FullAccount d), creditAccount = Some (FullAccount c),
         confidence = Num 0.6\<rparr>)"
  by (auto simp: tryAccountMatching_def tryAccountMatching_body_def split: option.splits)

lemma example_services_simps:
  "initialized example_services"
  "accountMatcher example_services = AccountMatcher_initialize example_chart example_standard"
  "transactionPatternMatcher example_services = TransactionPatternMatcher_initialize"
  "ragMapper example_services = RAGMapper_initialize example_chart example_standard"
  by (simp_all add: example_services_def MappingOrchestrator_initialize_def)

lemma learned_services_simps:
  "initialized learned_services"
  "accountMatcher learned_services = AccountMatcher_initialize example_chart example_standard"
  "ragMapper learned_services = RAGMapper_initialize example_chart example_standard"
  by (simp_all add: learned_services_def example_services_simps)

lemma find_entry_supplies:
  "find_entry Debit supplies_payment = Some (debit_entry ''5200'')"
  "find_entry Credit supplies_payment = Some (credit_entry ''4000'')"
  by (simp_all add: find_entry_def supplies_payment_def debit_entry_def credit_entry_def)

lemma example_account_matches:
  "findMatchingAccount example_runtime (AccountMatcher_initialize example_chart example_standard)
     (debit_entry ''5200'') supplies_payment = Some supplies_account"
  "findMatchingAccount example_runtime (AccountMatcher_initialize example_chart example_standard)
     (credit_entry ''4000'') supplies_payment = Some sales_account"
  by (simp_all add: findMatchingAccount_def findExactMatch_def validateAccountMatch_def
      AccountMatcher_initialize_simps example_chart_def cash_account_def supplies_account_def
      sales_account_def debit_entry_def credit_entry_def example_standard_def)

lemma rag_rejected:
  assumes "\<forall>a b. 0 \<le> cosine rt a b \<and> cosine rt a b \<le> 1"
  shows "\<not> js_gt (confidence (RAGMapper_mapTransaction rt m tx)) (Num 0.8)"
proof -
  have "nan_or_within (1 * 0.8) (confidence (RAGMapper_mapTransaction rt m tx))"
    using assms
    by (intro RAGMapper_mapTransaction_bound [where V = "\<lambda>v. True"]) (auto simp: list_all_iff)
  then show ?thesis
    by (cases "confidence (RAGMapper_mapTransaction rt m tx)") (auto simp: nan_or_within_def)
qed

lemma example_rag_rejected:
  "\<not> js_gt (confidence (RAGMapper_mapTransaction example_runtime m tx)) (Num 0.8)"
  by (rule rag_rejected [OF example_cosine_range])

lemma fresh_findMatches:
  "findMatches rt TransactionPatternMatcher_initialize tx = \<lparr>debitMatches = [], creditMatches = []\<rparr>"
  by (simp add: findMatches_fresh TransactionPatternMatcher_initialize_def exactMatches_def
      findHistoricalMatch_def findVendorMatch_def)

lemma learned_findMatches:
  "findMatches example_runtime (transactionPatternMatcher learned_services) supplies_payment =
     \<lparr>debitMatches = [\<lparr>accountId = ''acc-supplies'', pm_confidence = 0.95,
                        reason = ''Historical pattern match''\<rparr>],
      creditMatches = [\<lparr>accountId = ''acc-sales'', pm_confidence = 0.95,
                         reason = ''Historical pattern match''\<rparr>]\<rparr>"
  by (simp add: findMatches_learned learned_tables exactMatches_def findHistoricalMatch_def
      findVendorMatch_def supplies_payment_def normalizeText_supplies truthy_def push_pair_def)

lemma head_candidate_is_best:
  assumes "reachable s"
  shows "list_all (\<lambda>c. pm_confidence c \<le>
             pm_confidence (hd (debitMatches (findMatches rt (transactionPatternMatcher s) tx))))
           (debitMatches (findMatches rt (transactionPatternMatcher s) tx)) \<and>
         list_all (\<lambda>c. pm_confidence c \<le>
             pm_confidence (hd (creditMatches (findMatches rt (transactionPatternMatcher s) tx))))
           (creditMatches (findMatches rt (transactionPatternMatcher s) tx))"
proof -
  have "findMatches rt (transactionPatternMatcher s) tx = exactMatches (transactionPatternMatcher s) tx"
    using reachable_usage [OF assms] findMatches_fresh findMatches_learned
    by (cases "historicalPatterns (transactionPatternMatcher s) = []")
       (auto simp: usage_follows_history_def)
  then show ?thesis
    by (simp add: exactMatches_def push_pair_def Let_def split: option.splits)
qed

subsection \<open>MappingOrchestrator\<close>

text \<open>
  C1. For an initialized orchestrator \<^verbatim>\<open>mapTransaction\<close> returns, and what it returns is
  the cascade of the specification: the RAGMapper result exactly when its confidence
  exceeds 0.8; otherwise the heads of the two candidate lists of the pattern matcher, with
  the smaller of their confidences, exactly when both lists are non-empty and that
  confidence exceeds 0.7; otherwise the accounts of the account matcher with confidence
  0.6 exactly when both entries resolve; otherwise confidence 0. The best candidate of a
  list is its element 0, as the orchestrator takes it; in the states reached after
  \<^verbatim>\<open>initialize\<close> no candidate of the list has a higher confidence
  (\<open>head_candidate_is_best\<close>).
\<close>

theorem mapTransaction_cascade:
  assumes "initialized s"
  shows "mapTransaction rt s transaction = Inr (spec_cascade rt s transaction)"
proof -
  have am: "(case (find_entry Debit transaction, find_entry Credit transaction) of
       (Some debitEntry, Some creditEntry) \<Rightarrow>
         (case (findMatchingAccount rt (accountMatcher s) debitEntry transaction,
                findMatchingAccount rt (accountMatcher s) creditEntry transaction) of
            (Some debit, Some credit) \<Rightarrow>
              (\<lparr>debitAccount = Some (FullAccount debit),
                creditAccount = Some (FullAccount credit),
                confidence = Num 0.6\<rparr>,
               ''Account matching successful'')
          | _ \<Rightarrow> (unmapped, ''No successful mapping found''))
     | _ \<Rightarrow> (unmapped, ''No successful mapping found'')) =
    (if js_gt (confidence (tryAccountMatching rt s transaction)) (Num 0)
     then (tryAccountMatching rt s transaction, ''Account matching successful'')
     else (unmapped, ''No successful mapping found''))"
    by (simp add: tryAccountMatching_def tryAccountMatching_body_def unmapped_def
        split: option.splits)
  have pm: "\<not> js_gt (confidence unmapped) (Num 0.7)"
    by (simp add: unmapped_def)
  show ?thesis
    using assms pm unfolding mapTransaction_def spec_cascade_def am tryPatternMatching_heads Let_def
    by auto
qed

theorem mapTransaction_cascade_witness:
  "initialized example_services \<and> initialized learned_services \<and>
   mapTransaction example_runtime example_services supplies_payment =
     Inr (\<lparr>debitAccount = Some (FullAccount supplies_account),
           creditAccount = Some (FullAccount sales_account),
           confidence = Num 0.6\<rparr>, ''Account matching successful'') \<and>
   mapTransaction example_runtime learned_services supplies_payment =
     Inr (\<lparr>debitAccount = Some (IdOnly ''acc-supplies''),
           creditAccount = Some (IdOnly ''acc-sales''),
           confidence = Num 0.95\<rparr>, ''Pattern matching successful'')"
proof -
  have a: "spec_cascade example_runtime example_services supplies_payment =
     (\<lparr>debitAccount = Some (FullAccount supplies_account),
       creditAccount = Some (FullAccount sales_account),
       confidence = Num 0.6\<rparr>, ''Account matching successful'')"
    using example_rag_rejected [of "ragMapper example_services" supplies_payment]
    by (simp add: spec_cascade_def example_services_simps fresh_findMatches
        find_entry_supplies example_account_matches Let_def)
  have b: "spec_cascade example_runtime learned_services supplies_payment =
     (\<lparr>debitAccount = Some (IdOnly ''acc-supplies''),
       creditAccount = Some (IdOnly ''acc-sales''),
       confidence = Num 0.95\<rparr>, ''Pattern matching successful'')"
    using example_rag_rejected [of "ragMapper learned_services" supplies_payment]
    by (simp add: spec_cascade_def learned_findMatches Let_def)
  show ?thesis
    using mapTransaction_cascade [OF example_services_simps(1), of example_runtime supplies_payment]
      mapTransaction_cascade [OF learned_services_simps(1), of example_runtime supplies_payment]
    by (simp add: a b example_services_simps learned_services_simps)
qed

text \<open>
  C10. When \<^verbatim>\<open>mapTransaction\<close> returns from the pattern stage, both accounts of the
  result are the literal \<^verbatim>\<open>{ id }\<close> built from the head candidates: objects with the
  \<open>id\<close> property only. When it returns from the RAG stage or from the account matcher,
  both accounts are \<^verbatim>\<open>Account\<close> objects taken from the chart that the stage was
  initialized with.
\<close>

theorem pattern_stage_returns_id_stubs:
  assumes "mapTransaction rt s transaction = Inr (r, msg)"
  shows "(msg = ''Pattern matching successful'' \<longrightarrow>
            debitAccount r = Some (IdOnly (accountId
              (hd (debitMatches (findMatches rt (transactionPatternMatcher s) transaction))))) \<and>
            creditAccount r = Some (IdOnly (accountId
              (hd (creditMatches (findMatches rt (transactionPatternMatcher s) transaction)))))) \<and>
         (msg = ''RAG mapping successful'' \<longrightarrow>
            (\<exists>d c. debitAccount r = Some (FullAccount d) \<and> creditAccount r = Some (FullAccount c) \<and>
               d \<in> set (rag_accounts (ragMapper s)) \<and> c \<in> set (rag_accounts (ragMapper s)))) \<and>
         (msg = ''Account matching successful'' \<longrightarrow>
            (\<exists>d c. debitAccount r = Some (FullAccount d) \<and> creditAccount r = Some (FullAccount c) \<and>
               d \<in> set (am_accounts (accountMatcher s)) \<and>
               c \<in> set (am_accounts (accountMatcher s))))"
proof -
  from assms have init: "initialized s"
    by (auto simp: mapTransaction_def split: if_splits)
  have 1: "debitAccount r = Some (IdOnly (accountId
              (hd (debitMatches (findMatches rt (transactionPatternMatcher s) transaction))))) \<and>
           creditAccount r = Some (IdOnly (accountId
              (hd (creditMatches (findMatches rt (transactionPatternMatcher s) transaction)))))"
    if "msg = ''Pattern matching successful''"
  proof -
    from assms that have r: "r = tryPatternMatching rt s transaction"
      "js_gt (confidence r) (Num 0.7)"
      by (auto simp: mapTransaction_def Let_def split: if_splits)
    then show ?thesis
      by (auto simp: tryPatternMatching_heads Let_def unmapped_def split: if_splits)
  qed
  have 2: "\<exists>d c. debitAccount r = Some (FullAccount d) \<and> creditAccount r = Some (FullAccount c) \<and>
               d \<in> set (rag_accounts (ragMapper s)) \<and> c \<in> set (rag_accounts (ragMapper s))"
    if "msg = ''RAG mapping successful''"
  proof -
    from assms that have r: "r = RAGMapper_mapTransaction rt (ragMapper s) transaction"
      "js_gt (confidence r) (Num 0.8)"
      by (auto simp: mapTransaction_def Let_def split: if_splits)
    then have "js_gt (confidence (RAGMapper_mapTransaction rt (ragMapper s) transaction)) (Num 0.8)"
      by simp
    from RAGMapper_mapTransaction_in_chart [OF this] r(1) show ?thesis by blast
  qed
  have 3: "\<exists>d c. debitAccount r = Some (FullAccount d) \<and> creditAccount r = Some (FullAccount c) \<and>
               d \<in> set (am_accounts (accountMatcher s)) \<and> c \<in> set (am_accounts (accountMatcher s))"
    if "msg = ''Account matching successful''"
  proof -
    from assms that have r: "r = tryAccountMatching rt s transaction"
      "js_gt (confidence r) (Num 0)"
      by (auto simp: mapTransaction_def Let_def split: if_splits)
    with tryAccountMatching_cases [of rt s transaction] show ?thesis
      by (auto simp: unmapped_def dest: findMatchingAccount_in_chart)
  qed
  from 1 2 3 show ?thesis by blast
qed

theorem pattern_stage_returns_id_stubs_witness:
  "mapTransaction example_runtime learned_services supplies_payment =
     Inr (\<lparr>debitAccount = Some (IdOnly ''acc-supplies''),
           creditAccount = Some (IdOnly ''acc-sales''),
           confidence = Num 0.95\<rparr>, ''Pattern matching successful'') \<and>
   hd (debitMatches (findMatches example_runtime (transactionPatternMatcher learned_services)
         supplies_payment)) =
     \<lparr>accountId = ''acc-supplies'', pm_confidence = 0.95, reason = ''Historical pattern match''\<rparr> \<and>
   mapTransaction example_runtime example_services supplies_payment =
     Inr (\<lparr>debitAccount = Some (FullAccount supplies_account),
           creditAccount = Some (FullAccount sales_account),
           confidence = Num 0.6\<rparr>, ''Account matching successful'') \<and>
   supplies_account \<in> set (am_accounts (accountMatcher example_services)) \<and>
   sales_account \<in> set (am_accounts (accountMatcher example_services))"
proof -
  have p: "tryPatternMatching example_runtime learned_services supplies_payment =
      \<lparr>debitAccount = Some (IdOnly ''acc-supplies''), creditAccount = Some (IdOnly ''acc-sales''),
       confidence = Num 0.95\<rparr>"
    by (simp add: tryPatternMatching_def learned_findMatches)
  have a: "mapTransaction example_runtime learned_services supplies_payment =
     Inr (\<lparr>debitAccount = Some (IdOnly ''acc-supplies''),
           creditAccount = Some (IdOnly ''acc-sales''),
           confidence = Num 0.95\<rparr>, ''Pattern matching successful'')"
    using example_rag_rejected [of "ragMapper learned_services" supplies_payment]
    by (simp add: mapTransaction_def learned_services_simps(1) p Let_def)
  have q: "tryAccountMatching example_runtime example_services supplies_payment =
      \<lparr>debitAccount = Some (FullAccount supplies_account),
       creditAccount = Some (FullAccount sales_account), confidence = Num 0.6\<rparr>"
    by (simp add: tryAccountMatching_def tryAccountMatching_body_def find_entry_supplies
        example_services_simps example_account_matches)
  have b: "mapTransaction example_runtime example_services supplies_payment =
     Inr (\<lparr>debitAccount = Some (FullAccount supplies_account),
           creditAccount = Some (FullAccount sales_account),
           confidence = Num 0.6\<rparr>, ''Account matching successful'')"
    using example_rag_rejected [of "ragMapper example_services" supplies_payment]
    by (simp add: mapTransaction_def example_services_simps(1) q Let_def
        tryPatternMatching_def example_services_simps(3) fresh_findMatches unmapped_def)
  show ?thesis
    using pattern_stage_returns_id_stubs [OF a] pattern_stage_returns_id_stubs [OF b]
    by (simp add: a b learned_findMatches)
qed

lemma find_entry_type: "find_entry ty tx = Some e \<Longrightarrow> ent_type e = ty"
  by (auto simp: find_entry_def dest: find_SomeD)

lemma findMatchingAccount_validated:
  assumes "findMatchingAccount rt m entry tx = Some a" and "am_standard m = Some standard"
  shows "signConventions standard (acc_type a) = Some (ent_type entry)"
  using assms
  by (auto simp: findMatchingAccount_def validateAccountMatch_def
      split: option.splits sum.splits if_splits)

lemma other_stages_return_distinct_accounts:
  assumes r: "mapTransaction rt s tx = Inr (r, msg)"
    and st: "am_standard (accountMatcher s) = Some standard"
    and msg: "msg = ''RAG mapping successful'' \<or> msg = ''Account matching successful''"
  shows "debitAccount r \<noteq> creditAccount r"
proof -
  from msg consider (rag) "msg = ''RAG mapping successful''"
    | (am) "msg = ''Account matching successful''" by blast
  then show ?thesis
  proof cases
    case rag
    with r have r': "r = RAGMapper_mapTransaction rt (ragMapper s) tx"
      "js_gt (confidence r) (Num 0.8)"
      by (auto simp: mapTransaction_def Let_def split: if_splits)
    then have "js_gt (confidence (RAGMapper_mapTransaction rt (ragMapper s) tx)) (Num 0.8)"
      by simp
    from RAGMapper_mapTransaction_in_chart [OF this] r'(1) show ?thesis by auto
  next
    case am
    with r have r': "r = tryAccountMatching rt s tx" "js_gt (confidence r) (Num 0)"
      by (auto simp: mapTransaction_def Let_def split: if_splits)
    with tryAccountMatching_cases [of rt s tx] obtain de ce d c where
      e: "find_entry Debit tx = Some de" "find_entry Credit tx = Some ce" and
      f: "findMatchingAccount rt (accountMatcher s) de tx = Some d"
         "findMatchingAccount rt (accountMatcher s) ce tx = Some c" and
      v: "r = \<lparr>debitAccount = Some (FullAccount d), creditAccount = Some (FullAccount c),
               confidence = Num 0.6\<rparr>"
      by (auto simp: unmapped_def)
    from findMatchingAccount_validated [OF f(1) st] find_entry_type [OF e(1)]
    have "signConventions standard (acc_type d) = Some Debit" by simp
    moreover from findMatchingAccount_validated [OF f(2) st] find_entry_type [OF e(2)]
    have "signConventions standard (acc_type c) = Some Credit" by simp
    ultimately have "d \<noteq> c" by auto
    with v show ?thesis by simp
  qed
qed

lemma mislearned_tables:
  "transactionPatternMatcher mislearned_services =
     learnFromTransaction supplies_payment ''acc-supplies'' ''acc-supplies''
       TransactionPatternMatcher_initialize"
  "initialized mislearned_services"
  by (simp_all add: mislearned_services_def example_services_simps)

text \<open>
  C4. The pattern stage repeats the pair it has learned for the description. When the
  confirmed mapping named one account on both sides, \<^verbatim>\<open>mapTransaction\<close> returns that
  account as the debit and as the credit account of a later transaction with the same
  normalized description, with confidence 0.95: nothing on this path compares the two
  heads. (The RAG stage skips the debit pick when it looks for the credit account, and
  the account matcher validates each side against the sign convention, so their two
  accounts differ: \<open>other_stages_return_distinct_accounts\<close>.)
\<close>

theorem pattern_stage_returns_same_account:
  assumes "initialized s"
    and "\<forall>a b. 0 \<le> cosine rt a b \<and> cosine rt a b \<le> 1"
    and "transactionPatternMatcher s = learnFromTransaction learned account account t0"
    and "normalizeText (tx_description transaction) = normalizeText (tx_description learned)"
  shows "mapTransaction rt s transaction =
     Inr (\<lparr>debitAccount = Some (IdOnly account), creditAccount = Some (IdOnly account),
           confidence = Num 0.95\<rparr>, ''Pattern matching successful'')"
proof -
  let ?t = "transactionPatternMatcher s"
  have ne: "historicalPatterns ?t \<noteq> []"
    using assms(3) by (simp add: learned_nonempty)
  have h: "findHistoricalMatch ?t transaction = Some \<lparr>lp_debit = account, lp_credit = account\<rparr>"
    using assms(3,4)
    by (simp add: findHistoricalMatch_def learnFromTransaction_def Let_def map_of_map_set)
  have p: "tryPatternMatching rt s transaction =
      \<lparr>debitAccount = Some (IdOnly account), creditAccount = Some (IdOnly account),
       confidence = Num 0.95\<rparr>"
    by (simp add: tryPatternMatching_def findMatches_learned [OF ne] exactMatches_def h
        push_pair_def Let_def split: option.splits)
  show ?thesis
    using assms(1) rag_rejected [OF assms(2), of "ragMapper s" transaction]
    by (simp add: mapTransaction_def p Let_def)
qed

theorem pattern_stage_returns_same_account_witness:
  "initialized mislearned_services \<and>
   (\<forall>a b. 0 \<le> cosine example_runtime a b \<and> cosine example_runtime a b \<le> 1) \<and>
   mapTransaction example_runtime mislearned_services supplies_payment =
     Inr (\<lparr>debitAccount = Some (IdOnly ''acc-supplies''),
           creditAccount = Some (IdOnly ''acc-supplies''),
           confidence = Num 0.95\<rparr>, ''Pattern matching successful'')"
  using pattern_stage_returns_same_account [OF mislearned_tables(2) example_cosine_range
      mislearned_tables(1) refl]
    mislearned_tables(2) example_cosine_range
  by simp

text \<open>
  C2, as the claim states it: a failure inside a stage would make that stage return zero
  confidence. The pattern stage does not: the comparison of the two descriptions throws
  inside \<^verbatim>\<open>findMatches\<close>, which catches it and returns the exact hit pushed before, and
  the stage is accepted with confidence 0.95.
\<close>

theorem pattern_stage_failure_keeps_candidates:
  "initialized learned_services \<and>
   findSimilarDescriptionMatches example_runtime (transactionPatternMatcher learned_services)
     supplies_payment_again = Inl DimensionMismatch \<and>
   confidence (tryPatternMatching example_runtime learned_services supplies_payment_again) =
     Num 0.95 \<and>
   mapTransaction example_runtime learned_services supplies_payment_again =
     Inr (\<lparr>debitAccount = Some (IdOnly ''acc-supplies''),
           creditAccount = Some (IdOnly ''acc-sales''),
           confidence = Num 0.95\<rparr>, ''Pattern matching successful'')"
proof -
  have f: "findSimilarDescriptionMatches example_runtime (transactionPatternMatcher learned_services)
     supplies_payment_again = Inl DimensionMismatch"
    by (simp add: findSimilarDescriptionMatches_def learned_tables supplies_payment_again_def
        supplies_payment_def calculateSimilarity_strings)
  have m: "findMatches example_runtime (transactionPatternMatcher learned_services)
      supplies_payment_again =
     \<lparr>debitMatches = [\<lparr>accountId = ''acc-supplies'', pm_confidence = 0.95,
                        reason = ''Historical pattern match''\<rparr>],
      creditMatches = [\<lparr>accountId = ''acc-sales'', pm_confidence = 0.95,
                         reason = ''Historical pattern match''\<rparr>]\<rparr>"
    by (simp add: findMatches_learned learned_tables exactMatches_def findHistoricalMatch_def
        findVendorMatch_def supplies_payment_again_def supplies_payment_def
        normalizeText_supplies truthy_def push_pair_def)
  have p: "tryPatternMatching example_runtime learned_services supplies_payment_again =
      \<lparr>debitAccount = Some (IdOnly ''acc-supplies''), creditAccount = Some (IdOnly ''acc-sales''),
       confidence = Num 0.95\<rparr>"
    by (simp add: tryPatternMatching_def m)
  have "mapTransaction example_runtime learned_services supplies_payment_again =
     Inr (\<lparr>debitAccount = Some (IdOnly ''acc-supplies''),
           creditAccount = Some (IdOnly ''acc-sales''),
           confidence = Num 0.95\<rparr>, ''Pattern matching successful'')"
    using example_rag_rejected [of "ragMapper learned_services" supplies_payment_again]
    by (simp add: mapTransaction_def learned_services_simps(1) p Let_def)
  with f p show ?thesis by (simp add: learned_services_simps(1))
qed

text \<open>
  C2, amended. \<^verbatim>\<open>mapTransaction\<close> fails with \<open>NotInitialized\<close> before initialization and
  returns a result after it, whatever the transaction. An exception in the body of the
  RAG stage or of the account-matching stage makes that stage return confidence 0. For a
  transaction without a debit or without a credit entry both stages give confidence 0
  (the RAG stage by its own check, the account-matching stage by throwing
  \<open>MalformedTransaction\<close> and catching it), and the cascade goes on: the result is the
  pattern stage's if that clears 0.7 and confidence 0 otherwise. An
  exception inside \<^verbatim>\<open>findMatches\<close> is caught there and leaves the exact historical and
  vendor hits in the lists, so the pattern stage is not reduced to zero confidence by it.
\<close>

theorem mapTransaction_never_throws:
  "(\<not> initialized s \<longrightarrow> mapTransaction rt s transaction = Inl NotInitialized) \<and>
   (initialized s \<longrightarrow> (\<exists>r msg. mapTransaction rt s transaction = Inr (r, msg))) \<and>
   (\<forall>e. findBestMatches rt (ragMapper s)
           (createTransactionEmbedding (ragMapper s) transaction (extractFeatures rt transaction))
           transaction = Inl e \<longrightarrow>
        RAGMapper_mapTransaction rt (ragMapper s) transaction = unmapped) \<and>
   (\<forall>e. tryAccountMatching_body rt s transaction = Inl e \<longrightarrow>
        tryAccountMatching rt s transaction = unmapped) \<and>
   (find_entry Debit transaction = None \<or> find_entry Credit transaction = None \<longrightarrow>
      RAGMapper_mapTransaction rt (ragMapper s) transaction = unmapped \<and>
      tryAccountMatching_body rt s transaction = Inl MalformedTransaction \<and>
      (initialized s \<longrightarrow>
         mapTransaction rt s transaction =
           Inr (if js_gt (confidence (tryPatternMatching rt s transaction)) (Num 0.7)
                then (tryPatternMatching rt s transaction, ''Pattern matching successful'')
                else (unmapped, ''No successful mapping found'')))) \<and>
   (\<forall>e. findSimilarDescriptionMatches rt (transactionPatternMatcher s) transaction = Inl e \<longrightarrow>
        findMatches rt (transactionPatternMatcher s) transaction =
          exactMatches (transactionPatternMatcher s) transaction)"
proof -
  have 1: "\<not> initialized s \<Longrightarrow> mapTransaction rt s transaction = Inl NotInitialized"
    by (simp add: mapTransaction_def)
  have 2: "initialized s \<Longrightarrow> \<exists>r msg. mapTransaction rt s transaction = Inr (r, msg)"
    by (simp add: mapTransaction_def Let_def)
  have 3: "RAGMapper_mapTransaction rt (ragMapper s) transaction = unmapped"
    if "findBestMatches rt (ragMapper s)
           (createTransactionEmbedding (ragMapper s) transaction (extractFeatures rt transaction))
           transaction = Inl e" for e
    using that by (simp add: RAGMapper_mapTransaction_def Let_def)
  have 4: "tryAccountMatching rt s transaction = unmapped"
    if "tryAccountMatching_body rt s transaction = Inl e" for e
    using that by (simp add: tryAccountMatching_def)
  have 5: "RAGMapper_mapTransaction rt (ragMapper s) transaction = unmapped \<and>
      tryAccountMatching_body rt s transaction = Inl MalformedTransaction"
    if "find_entry Debit transaction = None \<or> find_entry Credit transaction = None"
    using that
    by (auto simp: RAGMapper_mapTransaction_def findBestMatches_def tryAccountMatching_body_def
        Let_def split: option.splits)
  have 6: "mapTransaction rt s transaction =
           Inr (if js_gt (confidence (tryPatternMatching rt s transaction)) (Num 0.7)
                then (tryPatternMatching rt s transaction, ''Pattern matching successful'')
                else (unmapped, ''No successful mapping found''))"
    if "find_entry Debit transaction = None \<or> find_entry Credit transaction = None"
      and "initialized s"
    using 5 [OF that(1)] that(2)
    by (simp add: mapTransaction_def tryAccountMatching_def Let_def unmapped_def)
  have 7: "findMatches rt (transactionPatternMatcher s) transaction =
          exactMatches (transactionPatternMatcher s) transaction"
    if "findSimilarDescriptionMatches rt (transactionPatternMatcher s) transaction = Inl e" for e
    using that by (simp add: findMatches_def exactMatches_def Let_def)
  show ?thesis
    using 1 2 3 4 5 6 7 by blast
qed

lemma find_entry_one_sided:
  "find_entry Credit one_sided_payment = None"
  by (simp add: find_entry_def one_sided_payment_def supplies_payment_def debit_entry_def)

theorem mapTransaction_never_throws_witness:
  "mapTransaction example_runtime blank_services supplies_payment = Inl NotInitialized \<and>
   find_entry Credit one_sided_payment = None \<and>
   tryAccountMatching_body example_runtime example_services one_sided_payment =
     Inl MalformedTransaction \<and>
   mapTransaction example_runtime example_services one_sided_payment =
     Inr (unmapped, ''No successful mapping found'')"
proof -
  have b: "\<not> initialized blank_services"
    by (simp add: blank_services_def)
  have p: "tryPatternMatching example_runtime example_services one_sided_payment = unmapped"
    by (simp add: tryPatternMatching_def example_services_simps(3) fresh_findMatches)
  show ?thesis
    using mapTransaction_never_throws [of blank_services example_runtime supplies_payment]
      mapTransaction_never_throws [of example_services example_runtime one_sided_payment]
    by (simp add: b p find_entry_one_sided example_services_simps(1) unmapped_def)
qed

subsection \<open>The range of the confidences\<close>

lemma frequency_formula_unbounded:
  "map pm_confidence
     (getFrequencyBasedMatches
        \<lparr>historicalPatterns = [(d, p)], vendorPatterns = [], accountUsageFrequency = [(a, 2)]\<rparr>) =
   [1.5]"
  by (simp add: getFrequencyBasedMatches_def js_sort_desc_def)









lemma example_embeddings:
  "rag_vocabulary (ragMapper example_services) =
     [''cash'', ''asset'', ''current'', ''office'', ''supplies'', ''expense'',
      ''operating'', ''sales'', ''revenue'']"
  "rag_accountEmbeddings (ragMapper example_services) =
     [(''acc-cash'', [1, 1, 1, 0, 0, 0, 0, 0, 0]),
      (''acc-supplies'', [0, 0, 0, 2, 2, 2, 1, 0, 0]),
      (''acc-sales'', [0, 0, 0, 0, 0, 0, 1, 1, 2])]"
  by code_simp+







end
